theory Spec2Isabelle
  imports Main "HOL-Library.Char_ord" "HOL-Library.List_Lexorder" "HOL-Library.AList"
    "HOL-Library.Sublist"
begin

section \<open>Manifests asset of the installer (pkg/asset/manifests/operators.go)\<close>

text \<open>
  Go strings and byte slices are modelled as \<open>string\<close> (a list of bytes). A Go function
  that may panic returns an \<open>exec\<close> value: \<open>Panics\<close> stands for the process being
  aborted, \<open>Returns v\<close> for a normal return. Go's \<open>int\<close> is modelled as \<open>int\<close>; the only
  integer of this file, the indentation width, takes part in no arithmetic.
\<close>

datatype 'a exec = Returns 'a | Panics

subsection \<open>The Go standard library functions the file calls\<close>



subsection \<open>indent\<close>

definition newline_char :: char where
  "newline_char = CHR 0x0A"





text \<open>
  \<open>strings.TrimSuffix(s, suffix)\<close> removes \<open>suffix\<close> from the end of \<open>s\<close> when \<open>s\<close>
  ends with it and returns \<open>s\<close> otherwise.
\<close>

definition strings_TrimSuffix :: "string \<Rightarrow> string \<Rightarrow> string" where
  "strings_TrimSuffix s suf =
     (if suffix suf s then take (length s - length suf) s else s)"

text \<open>
  \<open>filepath.Base(path)\<close> on a system whose separator is \<open>/\<close>: the last element of the
  path, after trailing separators are removed; \<open>.\<close> for the empty path and \<open>/\<close> for a
  path of separators only.
\<close>

definition filepath_Base :: "string \<Rightarrow> string" where
  "filepath_Base path =
     (if path = [] then ''.''
      else (let stripped = rev (dropWhile (\<lambda>c. c = CHR ''/'') (rev path));
                lastElem = rev (takeWhile (\<lambda>c. c \<noteq> CHR ''/'') (rev stripped))
            in if lastElem = [] then ''/'' else lastElem))"

text \<open>
  \<open>filepath.Clean\<close> by its documented rules: multiple separators count as one, \<open>.\<close>
  elements are dropped, an inner \<open>..\<close> removes the element before it, \<open>..\<close> at the
  beginning of a rooted path is dropped, and the empty result is \<open>.\<close>.
\<close>

primrec split_elems :: "string \<Rightarrow> string list" where
  "split_elems [] = [[]]"
| "split_elems (c # cs) =
     (if c = CHR ''/'' then [] # split_elems cs
      else (case split_elems cs of [] \<Rightarrow> [[c]] | e # es \<Rightarrow> (c # e) # es))"

fun clean_elems :: "bool \<Rightarrow> string list \<Rightarrow> string list \<Rightarrow> string list" where
  "clean_elems rooted out [] = out"
| "clean_elems rooted out (e # es) =
     (if e = [] \<or> e = ''.'' then clean_elems rooted out es
      else if e = ''..'' then
        (if out \<noteq> [] \<and> last out \<noteq> ''..'' then clean_elems rooted (butlast out) es
         else if rooted then clean_elems rooted out es
         else clean_elems rooted (out @ [''..'']) es)
      else clean_elems rooted (out @ [e]) es)"

fun join_elems :: "string list \<Rightarrow> string" where
  "join_elems [] = []"
| "join_elems [e] = e"
| "join_elems (e # es) = e @ ''/'' @ join_elems es"

definition filepath_Clean :: "string \<Rightarrow> string" where
  "filepath_Clean path =
     (if path = [] then ''.''
      else (let rooted = (hd path = CHR ''/'');
                out = (if rooted then ''/'' else []) @
                      join_elems (clean_elems rooted [] (split_elems path))
            in if out = [] then ''.'' else out))"

text \<open>
  \<open>filepath.Join(elem...)\<close>: the elements from the first non-empty one on are joined
  with the separator and the result is cleaned; the result is empty when every element
  is.
\<close>

fun filepath_Join :: "string list \<Rightarrow> string" where
  "filepath_Join [] = []"
| "filepath_Join (e # es) =
     (if e \<noteq> [] then filepath_Clean (join_elems (e # es)) else filepath_Join es)"

text \<open>
  \<open>filepath.Match(pattern, name)\<close> for patterns made of literal characters and \<open>*\<close>,
  which are the patterns of this file: \<open>*\<close> matches any sequence of characters other
  than the separator.
\<close>

fun filepath_Match :: "string \<Rightarrow> string \<Rightarrow> bool" where
  "filepath_Match [] name = (name = [])"
| "filepath_Match (p # ps) [] = (p = CHR ''*'' \<and> filepath_Match ps [])"
| "filepath_Match (p # ps) (c # cs) =
     (if p = CHR ''*''
      then filepath_Match ps (c # cs) \<or> (c \<noteq> CHR ''/'' \<and> filepath_Match (p # ps) cs)
      else c = p \<and> filepath_Match ps cs)"

text \<open>
  \<open>base64.StdEncoding.EncodeToString\<close>: three bytes become four characters of the standard
  alphabet, and a last group of one or two bytes is padded with \<open>=\<close>.
\<close>

definition base64_alphabet :: string where
  "base64_alphabet = ''ABCDEFGHIJKLMNOPQRSTUVWXYZabcdefghijklmnopqrstuvwxyz0123456789+/''"

definition base64_char :: "nat \<Rightarrow> char" where
  "base64_char n = base64_alphabet ! (n mod 64)"

fun base64_EncodeToString :: "string \<Rightarrow> string" where
  "base64_EncodeToString [] = []"
| "base64_EncodeToString [a] =
     (let n = of_char a * 65536
      in [base64_char (n div 262144), base64_char (n div 4096), CHR ''='', CHR ''=''])"
| "base64_EncodeToString [a, b] =
     (let n = of_char a * 65536 + of_char b * 256
      in [base64_char (n div 262144), base64_char (n div 4096), base64_char (n div 64),
          CHR ''=''])"
| "base64_EncodeToString (a # b # c # rest) =
     (let n = of_char a * 65536 + of_char b * 256 + of_char c
      in [base64_char (n div 262144), base64_char (n div 4096), base64_char (n div 64),
          base64_char n] @ base64_EncodeToString rest)"


subsection \<open>The data URL library\<close>

text \<open>
  Modelled from the spec: the library \<open>github.com/vincent-petithory/dataurl\<close> is not among
  the sources. The specification asks for a single-line data URL in an ASCII-safe percent
  encoding: the media type follows \<open>data:\<close>, a comma follows the media type, and every
  byte of the data other than a letter, a digit, \<open>-\<close>, \<open>_\<close>, \<open>.\<close> and \<open>~\<close> is written as
  \<open>%\<close> and two upper-case hexadecimal digits.
\<close>

definition hex_digit :: "nat \<Rightarrow> char" where
  "hex_digit n = ''0123456789ABCDEF'' ! (n mod 16)"

definition isUnreserved :: "char \<Rightarrow> bool" where
  "isUnreserved c =
     ((CHR ''a'' \<le> c \<and> c \<le> CHR ''z'') \<or> (CHR ''A'' \<le> c \<and> c \<le> CHR ''Z'') \<or>
      (CHR ''0'' \<le> c \<and> c \<le> CHR ''9'') \<or>
      c = CHR ''-'' \<or> c = CHR ''_'' \<or> c = CHR ''.'' \<or> c = CHR ''~'')"

definition escape_byte :: "char \<Rightarrow> string" where
  "escape_byte c =
     (if isUnreserved c then [c]
      else [CHR ''%'', hex_digit (of_char c div 16), hex_digit (of_char c)])"

definition dataurl_Escape :: "string \<Rightarrow> string" where
  "dataurl_Escape data = concat (map escape_byte data)"

definition dataurl_String :: "string \<Rightarrow> string \<Rightarrow> string" where
  "dataurl_String mediatype data = ''data:'' @ mediatype @ '','' @ dataurl_Escape data"

text \<open>The inverse direction, which a reader of the data URL applies.\<close>

definition hex_value :: "char \<Rightarrow> nat option" where
  "hex_value c =
     (if CHR ''0'' \<le> c \<and> c \<le> CHR ''9'' then Some (of_char c - 48)
      else if CHR ''A'' \<le> c \<and> c \<le> CHR ''F'' then Some (of_char c - 55)
      else None)"

fun dataurl_Unescape :: "string \<Rightarrow> string option" where
  "dataurl_Unescape [] = Some []"
| "dataurl_Unescape (c # cs) =
     (if c = CHR ''%'' then
        (case cs of
           h # l # rest \<Rightarrow>
             (case (hex_value h, hex_value l, dataurl_Unescape rest) of
                (Some x, Some y, Some r) \<Rightarrow> Some (char_of (16 * x + y) # r)
              | _ \<Rightarrow> None)
         | _ \<Rightarrow> None)
      else map_option ((#) c) (dataurl_Unescape cs))"

definition dataurl_Decode :: "string \<Rightarrow> string \<Rightarrow> string option" where
  "dataurl_Decode mediatype url =
     (let header = ''data:'' @ mediatype @ '',''
      in if prefix header url then dataurl_Unescape (drop (length header) url) else None)"

subsection \<open>aroWorkerRegistries\<close>

record ImageContentSource =
  Source :: string
  Mirrors :: "string list"

definition dquote :: string where
  "dquote = [CHR 0x22]"

text \<open>
  The two loops of \<open>aroWorkerRegistries\<close> write into the buffer \<open>b\<close>; each
  \<open>fmt.Fprintf\<close> appends its format string with \<open>%s\<close> replaced by the argument.
\<close>

definition registries_header :: string where
  "registries_header =
     ''unqualified-search-registries = ['' @ dquote @ ''registry.access.redhat.com'' @ dquote @
     '', '' @ dquote @ ''docker.io'' @ dquote @ '']\<newline>''"

definition registry_block :: "string \<Rightarrow> string" where
  "registry_block source =
     ''\<newline>[[registry]]\<newline>  prefix = '' @ dquote @ dquote @ ''\<newline>  location = '' @ dquote @
     source @ dquote @ ''\<newline>  mirror-by-digest-only = true\<newline>''"

definition mirror_block :: "string \<Rightarrow> string" where
  "mirror_block mirror =
     ''\<newline>  [[registry.mirror]]\<newline>    location = '' @ dquote @ mirror @ dquote @ ''\<newline>''"

fun write_mirrors :: "string \<Rightarrow> string list \<Rightarrow> string" where
  "write_mirrors b [] = b"
| "write_mirrors b (mirror # mirrors) = write_mirrors (b @ mirror_block mirror) mirrors"

fun write_registries :: "string \<Rightarrow> ImageContentSource list \<Rightarrow> string" where
  "write_registries b [] = b"
| "write_registries b (ics # icss) =
     write_registries (write_mirrors (b @ registry_block (Source ics)) (Mirrors ics)) icss"

definition aroWorkerRegistries :: "ImageContentSource list \<Rightarrow> string" where
  "aroWorkerRegistries icss =
     (let b = [];
          b = b @ registries_header;
          b = write_registries b icss
      in dataurl_String ''text/plain'' b)"

text \<open>
  The specification's wording of the block: one default line, then one block per
  mirror-source entry with one nested sub-block per mirror target.
\<close>

definition registries_spec :: "ImageContentSource list \<Rightarrow> string" where
  "registries_spec icss =
     registries_header @
     concat (map (\<lambda>ics. registry_block (Source ics) @ concat (map mirror_block (Mirrors ics))) icss)"

text \<open>The number of (possibly overlapping) occurrences of a non-empty text in a string.\<close>

fun occurrences :: "string \<Rightarrow> string \<Rightarrow> nat" where
  "occurrences pat [] = 0"
| "occurrences pat (c # cs) = (if prefix pat (c # cs) then 1 else 0) + occurrences pat cs"


subsection \<open>Errors, files and the install configuration\<close>

text \<open>
  An error is either one reported by a library or by the file fetcher, or one wrapped
  with a context message by \<open>errors.Wrap\<close>.
\<close>

datatype error = LibraryError string | Wrap error string

record File =
  Filename :: string
  Data :: string

text \<open>
  \<open>types.InstallConfig\<close> is declared outside this file. The record keeps the fields the
  file reads or writes; the field \<open>ConfigOther\<close> stands for all the other fields of the
  structure, and \<open>PlatformOther\<close> and \<open>VSphereOther\<close> do so for the platform structure and
  for the vSphere platform. \<open>Platform.VSphere\<close> is a pointer: \<open>None\<close> is \<open>nil\<close>. The type
  \<open>'p\<close> is the type of what the pointer field holds: an address into a heap of vSphere
  platforms in the program's state, the platform itself in the value that the YAML
  encoder sees (it follows pointers).
\<close>

record 'o VSpherePlatform =
  Username :: string
  Password :: string
  VSphereOther :: 'o

record ('p, 'o) Platform =
  VSphere :: "'p option"
  PlatformOther :: 'o

record ('p, 'o) InstallConfig =
  PullSecret :: string
  Publish :: string
  ImageContentSources :: "ImageContentSource list"
  Platform :: "('p, 'o) Platform"
  ConfigOther :: 'o

type_synonym 'o heap = "'o VSpherePlatform list"

definition InternalPublishingStrategy :: string where
  "InternalPublishingStrategy = ''Internal''"

text \<open>What the encoder sees of a configuration: every pointer replaced by its target.\<close>

definition deref :: "'o heap \<Rightarrow> (nat, 'o) InstallConfig \<Rightarrow> ('o VSpherePlatform, 'o) InstallConfig" where
  "deref h config =
     \<lparr>PullSecret = PullSecret config,
      Publish = Publish config,
      ImageContentSources = ImageContentSources config,
      Platform = \<lparr>VSphere = map_option (\<lambda>a. h ! a) (VSphere (Platform config)),
                  PlatformOther = PlatformOther (Platform config)\<rparr>,
      ConfigOther = ConfigOther config\<rparr>"

text \<open>A non-nil pointer of a Go program points to a live object.\<close>

definition valid_pointers :: "'o heap \<Rightarrow> (nat, 'o) InstallConfig \<Rightarrow> bool" where
  "valid_pointers h config =
     (case VSphere (Platform config) of None \<Rightarrow> True | Some a \<Rightarrow> a < length h)"

subsection \<open>redactedInstallConfig\<close>

text \<open>
  \<^verbatim>\<open>
  func redactedInstallConfig(config types.InstallConfig) ([]byte, error) {
      config.PullSecret = ""
      if config.Platform.VSphere != nil {
          p := *config.Platform.VSphere
          p.Username = ""
          p.Password = ""
          config.Platform.VSphere = &p
      }
      return yaml.Marshal(config)
  }
  \<close>
  \<open>config\<close> is the function's own copy of the caller's structure. The local \<open>p\<close> escapes
  through \<open>&p\<close>, so it is a new object of the heap, at the first unused address. The
  YAML encoder is a parameter. The function returns the heap after the call and the
  encoder's result.
\<close>

definition redactedInstallConfig ::
  "(('o VSpherePlatform, 'o) InstallConfig \<Rightarrow> error + string) \<Rightarrow>
   'o heap \<Rightarrow> (nat, 'o) InstallConfig \<Rightarrow> 'o heap \<times> (error + string)" where
  "redactedInstallConfig yaml_Marshal h config0 =
     (let config = config0\<lparr>PullSecret := []\<rparr>
      in case VSphere (Platform config) of
           None \<Rightarrow> (h, yaml_Marshal (deref h config))
         | Some a \<Rightarrow>
             (let p = h ! a;
                  p = p\<lparr>Username := []\<rparr>;
                  p = p\<lparr>Password := []\<rparr>;
                  h' = h @ [p];
                  config = config\<lparr>Platform := (Platform config)\<lparr>VSphere := Some (length h)\<rparr>\<rparr>
              in (h', yaml_Marshal (deref h' config))))"

text \<open>
  The specification's wording of the redacted value: the pull secret cleared, the
  username and the password of a present vSphere platform cleared, everything else as
  it was.
\<close>

definition redact_spec ::
  "('o VSpherePlatform, 'o) InstallConfig \<Rightarrow> ('o VSpherePlatform, 'o) InstallConfig" where
  "redact_spec v =
     v\<lparr>PullSecret := [],
       Platform := (Platform v)\<lparr>VSphere :=
         map_option (\<lambda>p. p\<lparr>Username := [], Password := []\<rparr>) (VSphere (Platform v))\<rparr>\<rparr>"


subsection \<open>The control manifest and the Manifests asset\<close>

text \<open>
  Modelled from the spec: \<open>configurationObject\<close> and \<open>configMap\<close> are declared in another
  file of the package, which is not among the sources. The specification describes the
  object as a wrapper carrying \<open>apiVersion\<close>, \<open>kind\<close>, \<open>metadata\<close> (name and namespace) and
  a string-keyed, string-valued \<open>data\<close> map; \<open>configMap\<close> builds the object of a
  ConfigMap from a namespace, a name and the data.
\<close>

record metadata =
  Name :: string
  Namespace :: string

record configurationObject =
  APIVersion :: string
  Kind :: string
  Metadata :: metadata
  ObjectData :: "string \<rightharpoonup> string"

definition configMap :: "string \<Rightarrow> string \<Rightarrow> (string \<rightharpoonup> string) \<Rightarrow> configurationObject" where
  "configMap namespace name data =
     \<lparr>APIVersion = ''v1'', Kind = ''ConfigMap'',
      Metadata = \<lparr>Name = name, Namespace = namespace\<rparr>,
      ObjectData = data\<rparr>"

text \<open>The zero value \<open>&configurationObject{}\<close>.\<close>

definition empty_configurationObject :: configurationObject where
  "empty_configurationObject =
     \<lparr>APIVersion = [], Kind = [], Metadata = \<lparr>Name = [], Namespace = []\<rparr>,
      ObjectData = Map.empty\<rparr>"

text \<open>\<open>KubeSysConfig\<close> is a pointer: \<open>None\<close> is \<open>nil\<close>.\<close>

record Manifests =
  KubeSysConfig :: "configurationObject option"
  FileList :: "File list"

definition manifestDir :: string where
  "manifestDir = ''manifests''"

definition kubeSysConfigPath :: string where
  "kubeSysConfigPath = filepath_Join [manifestDir, ''cluster-config.yaml'']"

text \<open>
  Modelled from the spec: \<open>asset.SortFiles\<close> is declared in the package \<open>asset\<close>, which is
  not among the sources. By the specification it sorts the file list lexicographically
  by filename. Go compares strings byte by byte, which is the lexicographic order of
  \<open>string\<close>.
\<close>

definition SortFiles :: "File list \<Rightarrow> File list" where
  "SortFiles files = sort_key Filename files"

subsection \<open>The template context and applyTemplateData\<close>

record bootkubeTemplateData =
  CVOClusterID :: string
  EtcdCaBundle :: string
  EtcdMetricCaCert :: string
  EtcdMetricSignerCert :: string
  EtcdMetricSignerClientCert :: string
  EtcdMetricSignerClientKey :: string
  EtcdMetricSignerKey :: string
  EtcdSignerCert :: string
  EtcdSignerClientCert :: string
  EtcdSignerClientKey :: string
  EtcdSignerKey :: string
  McsTLSCert :: string
  McsTLSKey :: string
  PullSecretBase64 :: string
  RootCaCert :: string
  AROWorkerRegistries :: string
  AROIngressIP :: string
  AROIngressInternal :: bool
  AROImageRegistryHTTPSecret :: string
  AROImageRegistryAccountName :: string
  AROImageRegistryContainerName :: string
  AROCloudName :: string

text \<open>
  The libraries that the file calls and that are taken as parameters: the YAML encoder
  for the install configuration and for the control manifest, the YAML decoder of the
  control manifest (it fills the object it is given), and the template engine of
  \<open>text/template\<close> with the helper functions \<open>indent\<close> and \<open>add\<close> registered: parsing a
  template text, and executing a parsed template of type \<open>'t\<close> on the template context.
\<close>

record ('o, 't) Libraries =
  yaml_Marshal_config :: "('o VSpherePlatform, 'o) InstallConfig \<Rightarrow> error + string"
  yaml_Marshal_object :: "configurationObject \<Rightarrow> error + string"
  yaml_Unmarshal_object :: "string \<Rightarrow> configurationObject \<Rightarrow> error + configurationObject"
  template_Parse :: "string \<Rightarrow> error + 't"
  template_Execute :: "'t \<Rightarrow> bootkubeTemplateData \<Rightarrow> error + string"

text \<open>
  \<^verbatim>\<open>
  func applyTemplateData(data []byte, templateData interface{}) []byte {
      template := template.Must(template.New("template").Funcs(customTmplFuncs).Parse(string(data)))
      buf := &bytes.Buffer{}
      if err := template.Execute(buf, templateData); err != nil {
          panic(err)
      }
      return buf.Bytes()
  }
  \<close>
  \<open>template.Must\<close> panics when parsing returned an error.
\<close>

definition applyTemplateData ::
  "('o, 't) Libraries \<Rightarrow> string \<Rightarrow> bootkubeTemplateData \<Rightarrow> string exec" where
  "applyTemplateData L data templateData =
     (case template_Parse L data of
        Inl err \<Rightarrow> Panics
      | Inr template \<Rightarrow>
          (case template_Execute L template templateData of
             Inl err \<Rightarrow> Panics
           | Inr buf \<Rightarrow> Returns buf))"

subsection \<open>The resolved dependencies\<close>

record CertKey =
  Cert :: string
  Key :: string

datatype BootkubeAsset =
    CVOOverrides | EtcdCAConfigMap | EtcdClientSecret | EtcdMetricClientSecret
  | EtcdMetricSignerSecret | EtcdMetricServingCAConfigMap | EtcdNamespace | EtcdService
  | EtcdServingCAConfigMap | EtcdSignerSecret | KubeCloudConfig | KubeSystemConfigmapRootCA
  | MachineConfigServerTLSSecret | OpenshiftConfigSecretPullSecret
  | OpenshiftMachineConfigOperator | KubevirtInfraNamespace | AROWorkerRegistriesAsset
  | AROIngressService | AROImageRegistry

text \<open>
  What \<open>dependencies.Get\<close> yields: the parent assets, already resolved. The pointers
  \<open>installConfig.Config\<close> and \<open>installConfig.Azure\<close> of a resolved install configuration
  are taken to be non-nil. \<open>bootkubeFiles a\<close> is \<open>a.Files()\<close> of the bootkube template
  asset \<open>a\<close>, and each of the seven collaborator fields is that asset's \<open>Files()\<close>.
\<close>

record 'o Parents =
  clusterID_UUID :: string
  installConfig_Config :: "(nat, 'o) InstallConfig"
  installConfig_heap :: "'o heap"
  installConfig_Azure_CloudName :: string
  etcdSignerCertKey :: CertKey
  etcdCABundle :: CertKey
  etcdSignerClientCertKey :: CertKey
  etcdMetricCABundle :: CertKey
  etcdMetricSignerClientCertKey :: CertKey
  etcdMetricSignerCertKey :: CertKey
  mcsCertKey :: CertKey
  rootCA :: CertKey
  aroDNSConfig_IngressIP :: string
  aroImageRegistryConfig_HTTPSecret :: string
  aroImageRegistryConfig_AccountName :: string
  aroImageRegistryConfig_ContainerName :: string
  bootkubeFiles :: "BootkubeAsset \<Rightarrow> File list"
  ingress_Files :: "File list"
  dns_Files :: "File list"
  network_Files :: "File list"
  infra_Files :: "File list"
  proxy_Files :: "File list"
  scheduler_Files :: "File list"
  imageContentSourcePolicy_Files :: "File list"


subsection \<open>generateBootKubeManifests\<close>

text \<open>The template context that \<open>generateBootKubeManifests\<close> builds from the parents.\<close>

definition templateData_of :: "'o Parents \<Rightarrow> bootkubeTemplateData" where
  "templateData_of deps =
     \<lparr>CVOClusterID = clusterID_UUID deps,
      EtcdCaBundle = Cert (etcdCABundle deps),
      EtcdMetricCaCert = Cert (etcdMetricCABundle deps),
      EtcdMetricSignerCert = base64_EncodeToString (Cert (etcdMetricSignerCertKey deps)),
      EtcdMetricSignerClientCert = base64_EncodeToString (Cert (etcdMetricSignerClientCertKey deps)),
      EtcdMetricSignerClientKey = base64_EncodeToString (Key (etcdMetricSignerClientCertKey deps)),
      EtcdMetricSignerKey = base64_EncodeToString (Key (etcdMetricSignerCertKey deps)),
      EtcdSignerCert = base64_EncodeToString (Cert (etcdSignerCertKey deps)),
      EtcdSignerClientCert = base64_EncodeToString (Cert (etcdSignerClientCertKey deps)),
      EtcdSignerClientKey = base64_EncodeToString (Key (etcdSignerClientCertKey deps)),
      EtcdSignerKey = base64_EncodeToString (Key (etcdSignerCertKey deps)),
      McsTLSCert = base64_EncodeToString (Cert (mcsCertKey deps)),
      McsTLSKey = base64_EncodeToString (Key (mcsCertKey deps)),
      PullSecretBase64 = base64_EncodeToString (PullSecret (installConfig_Config deps)),
      RootCaCert = Cert (rootCA deps),
      AROWorkerRegistries = aroWorkerRegistries (ImageContentSources (installConfig_Config deps)),
      AROIngressIP = aroDNSConfig_IngressIP deps,
      AROIngressInternal = (Publish (installConfig_Config deps) = InternalPublishingStrategy),
      AROImageRegistryHTTPSecret = aroImageRegistryConfig_HTTPSecret deps,
      AROImageRegistryAccountName = aroImageRegistryConfig_AccountName deps,
      AROImageRegistryContainerName = aroImageRegistryConfig_ContainerName deps,
      AROCloudName = installConfig_Azure_CloudName deps\<rparr>"

definition bootkube_assets :: "BootkubeAsset list" where
  "bootkube_assets =
     [CVOOverrides, EtcdCAConfigMap, EtcdClientSecret, EtcdMetricClientSecret,
      EtcdMetricSignerSecret, EtcdMetricServingCAConfigMap, EtcdNamespace, EtcdService,
      EtcdServingCAConfigMap, EtcdSignerSecret, KubeCloudConfig, KubeSystemConfigmapRootCA,
      MachineConfigServerTLSSecret, OpenshiftConfigSecretPullSecret,
      OpenshiftMachineConfigOperator, KubevirtInfraNamespace, AROWorkerRegistriesAsset,
      AROIngressService, AROImageRegistry]"

text \<open>The name under which a template file is rendered.\<close>

definition rendered_name :: "string \<Rightarrow> string" where
  "rendered_name filename =
     filepath_Join [manifestDir, strings_TrimSuffix (filepath_Base filename) ''.template'']"

text \<open>
  The inner loop, over the files of one asset, and the outer loop, over the assets;
  \<open>files\<close> is the slice that the loops append to. A panic of \<open>applyTemplateData\<close> ends
  both.
\<close>

fun render_files ::
  "('o, 't) Libraries \<Rightarrow> bootkubeTemplateData \<Rightarrow> File list \<Rightarrow> File list \<Rightarrow> File list exec" where
  "render_files L templateData files [] = Returns files"
| "render_files L templateData files (f # fs) =
     (case applyTemplateData L (Data f) templateData of
        Panics \<Rightarrow> Panics
      | Returns rendered \<Rightarrow>
          render_files L templateData
            (files @ [\<lparr>Filename = rendered_name (Filename f), Data = rendered\<rparr>]) fs)"

fun render_assets ::
  "('o, 't) Libraries \<Rightarrow> 'o Parents \<Rightarrow> bootkubeTemplateData \<Rightarrow> File list \<Rightarrow>
   BootkubeAsset list \<Rightarrow> File list exec" where
  "render_assets L deps templateData files [] = Returns files"
| "render_assets L deps templateData files (a # as) =
     (case render_files L templateData files (bootkubeFiles deps a) of
        Panics \<Rightarrow> Panics
      | Returns files' \<Rightarrow> render_assets L deps templateData files' as)"

definition generateBootKubeManifests :: "('o, 't) Libraries \<Rightarrow> 'o Parents \<Rightarrow> File list exec" where
  "generateBootKubeManifests L deps =
     (let templateData = templateData_of deps;
          files = []
      in render_assets L deps templateData files bootkube_assets)"

subsection \<open>Generate\<close>

text \<open>
  \<open>Generate\<close> takes the receiver \<open>m\<close> and returns it as the call leaves it, with the
  error (\<open>None\<close> is \<open>nil\<close>), unless the call panics. The receiver's \<open>KubeSysConfig\<close> is
  assigned before the control manifest is encoded.
\<close>

definition Generate ::
  "('o, 't) Libraries \<Rightarrow> 'o Parents \<Rightarrow> Manifests \<Rightarrow> (Manifests \<times> error option) exec" where
  "Generate L deps m0 =
     (case redactedInstallConfig (yaml_Marshal_config L)
             (installConfig_heap deps) (installConfig_Config deps) of
        (h, Inl err) \<Rightarrow> Returns (m0, Some (Wrap err ''failed to redact install-config''))
      | (h, Inr redactedConfig) \<Rightarrow>
          (let kubeSysConfig = configMap ''kube-system'' ''cluster-config-v1''
                                 [''install-config'' \<mapsto> redactedConfig];
               m = m0\<lparr>KubeSysConfig := Some kubeSysConfig\<rparr>
           in case yaml_Marshal_object L kubeSysConfig of
                Inl err \<Rightarrow>
                  Returns (m, Some (Wrap err
                    ''failed to create kube-system/cluster-config-v1 configmap''))
              | Inr kubeSysConfigData \<Rightarrow>
                  (let m = m\<lparr>FileList := [\<lparr>Filename = kubeSysConfigPath,
                                              Data = kubeSysConfigData\<rparr>]\<rparr>
                   in case generateBootKubeManifests L deps of
                        Panics \<Rightarrow> Panics
                      | Returns bootkube \<Rightarrow>
                          (let m = m\<lparr>FileList := FileList m @ bootkube\<rparr>;
                               m = m\<lparr>FileList := FileList m @ ingress_Files deps\<rparr>;
                               m = m\<lparr>FileList := FileList m @ dns_Files deps\<rparr>;
                               m = m\<lparr>FileList := FileList m @ network_Files deps\<rparr>;
                               m = m\<lparr>FileList := FileList m @ infra_Files deps\<rparr>;
                               m = m\<lparr>FileList := FileList m @ proxy_Files deps\<rparr>;
                               m = m\<lparr>FileList := FileList m @ scheduler_Files deps\<rparr>;
                               m = m\<lparr>FileList := FileList m @
                                                     imageContentSourcePolicy_Files deps\<rparr>;
                               m = m\<lparr>FileList := SortFiles (FileList m)\<rparr>
                           in Returns (m, None)))))"

subsection \<open>Load\<close>

text \<open>
  The loop of \<open>Load\<close> over the fetched files: every file named as the control manifest is
  decoded into the same object; a decoding error ends the call.
\<close>

fun load_loop ::
  "('o, 't) Libraries \<Rightarrow> File list \<Rightarrow> configurationObject \<Rightarrow> bool \<Rightarrow>
   error + (configurationObject \<times> bool)" where
  "load_loop L [] kubeSysConfig found = Inr (kubeSysConfig, found)"
| "load_loop L (file # files) kubeSysConfig found =
     (if Filename file = kubeSysConfigPath then
        (case yaml_Unmarshal_object L (Data file) kubeSysConfig of
           Inl err \<Rightarrow> Inl (Wrap err (''failed to unmarshal '' @ kubeSysConfigPath))
         | Inr kubeSysConfig' \<Rightarrow> load_loop L files kubeSysConfig' True)
      else load_loop L files kubeSysConfig found)"

text \<open>
  \<open>Load\<close> takes the file fetcher's \<open>FetchByPattern\<close> and the receiver, and returns the
  receiver as the call leaves it, the boolean and the error.
\<close>

definition Load ::
  "('o, 't) Libraries \<Rightarrow> (string \<Rightarrow> error + File list) \<Rightarrow> Manifests \<Rightarrow>
   Manifests \<times> bool \<times> error option" where
  "Load L FetchByPattern m =
     (case FetchByPattern (filepath_Join [manifestDir, ''*.yaml'']) of
        Inl err \<Rightarrow> (m, False, Some (Wrap err ''failed to load *.yaml files''))
      | Inr yamlFileList \<Rightarrow>
     (case FetchByPattern (filepath_Join [manifestDir, ''*.yml'']) of
        Inl err \<Rightarrow> (m, False, Some (Wrap err ''failed to load *.yml files''))
      | Inr ymlFileList \<Rightarrow>
     (case FetchByPattern (filepath_Join [manifestDir, ''*.json'']) of
        Inl err \<Rightarrow> (m, False, Some (Wrap err ''failed to load *.json files''))
      | Inr jsonFileList \<Rightarrow>
          (let fileList = yamlFileList @ ymlFileList;
               fileList = fileList @ jsonFileList
           in if length fileList = 0 then (m, False, None)
              else (case load_loop L fileList empty_configurationObject False of
                      Inl err \<Rightarrow> (m, False, Some err)
                    | Inr (kubeSysConfig, found) \<Rightarrow>
                        if \<not> found then (m, False, None)
                        else (let m = m\<lparr>FileList := fileList,
                                         KubeSysConfig := Some kubeSysConfig\<rparr>;
                                  m = m\<lparr>FileList := SortFiles (FileList m)\<rparr>
                              in (m, True, None)))))))"

subsection \<open>The persisted manifest directory\<close>

text \<open>
  Modelled from the spec: the asset store that writes an asset's files and the file
  fetcher are not among the sources. By the specification a file is a relative path
  with its bytes, the persisted layout is a directory of such files, and
  \<open>FetchByPattern\<close> returns the files whose path matches the pattern, an empty sequence
  when none does. The directory is an association list from paths to contents: writing
  a file replaces the content of a path already there, and the fetcher lists the
  directory in the order of the paths.
\<close>

type_synonym directory = "(string \<times> string) list"

definition persist :: "File list \<Rightarrow> directory" where
  "persist files = fold (\<lambda>f d. AList.update (Filename f) (Data f) d) files []"

definition matching_files :: "directory \<Rightarrow> string \<Rightarrow> File list" where
  "matching_files d pattern =
     map (\<lambda>(name, content). \<lparr>Filename = name, Data = content\<rparr>)
       (filter (\<lambda>(name, content). filepath_Match pattern name) (sort_key fst d))"

definition directory_fetcher :: "directory \<Rightarrow> string \<Rightarrow> error + File list" where
  "directory_fetcher d pattern = Inr (matching_files d pattern)"

definition manifest_patterns :: "string list" where
  "manifest_patterns =
     [filepath_Join [manifestDir, ''*.yaml''], filepath_Join [manifestDir, ''*.yml''],
      filepath_Join [manifestDir, ''*.json'']]"

definition fresh_Manifests :: Manifests where
  "fresh_Manifests = \<lparr>KubeSysConfig = None, FileList = []\<rparr>"


subsection \<open>Example inputs\<close>

definition example_heap :: "string heap" where
  "example_heap = [\<lparr>Username = ''admin'', Password = ''hunter2'', VSphereOther = ''vcenter''\<rparr>]"

definition example_config :: "(nat, string) InstallConfig" where
  "example_config =
     \<lparr>PullSecret = ''abc'', Publish = ''Internal'',
      ImageContentSources = [\<lparr>Source = ''registry.local'', Mirrors = [''mirror1'', ''mirror2'']\<rparr>],
      Platform = \<lparr>VSphere = Some 0, PlatformOther = ''none''\<rparr>,
      ConfigOther = ''metadata''\<rparr>"

text \<open>An encoder for the examples: it writes the secrets and the opaque fields out.\<close>

definition example_marshal :: "(string VSpherePlatform, string) InstallConfig \<Rightarrow> error + string" where
  "example_marshal v =
     Inr (''pullSecret='' @ PullSecret v @ '';vsphere='' @
          (case VSphere (Platform v) of
             None \<Rightarrow> ''nil''
           | Some p \<Rightarrow> Username p @ '':'' @ Password p @ ''@'' @ VSphereOther p) @
          '';other='' @ ConfigOther v)"

definition example_sources :: "ImageContentSource list" where
  "example_sources = [\<lparr>Source = ''registry.local'', Mirrors = [''mirror1'', ''mirror2'']\<rparr>]"

text \<open>
  Libraries for the examples. The encoder of the control manifest writes the embedded
  install configuration out and the decoder reads it back; the template engine knows
  two fields of the context, takes any other action for an unknown field, and any
  unclosed action for a syntax error.
\<close>

definition example_libraries :: "(string, string) Libraries" where
  "example_libraries =
     \<lparr>yaml_Marshal_config = example_marshal,
      yaml_Marshal_object =
        (\<lambda>c. case ObjectData c ''install-config'' of
               None \<Rightarrow> Inl (LibraryError ''no install-config'')
             | Some d \<Rightarrow> Inr d),
      yaml_Unmarshal_object =
        (\<lambda>d c. if d = [] then Inl (LibraryError ''empty document'')
               else Inr (configMap ''kube-system'' ''cluster-config-v1''
                           [''install-config'' \<mapsto> d])),
      template_Parse =
        (\<lambda>text. if prefix ''{{'' text \<and> \<not> suffix ''}}'' text
                  then Inl (LibraryError ''unclosed action'') else Inr text),
      template_Execute =
        (\<lambda>t td. if t = ''{{.PullSecretBase64}}'' then Inr (PullSecretBase64 td)
                else if t = ''{{.AROWorkerRegistries}}'' then Inr (AROWorkerRegistries td)
                else if prefix ''{{'' t then Inl (LibraryError ''unknown field'')
                else Inr t)\<rparr>"

definition empty_fetcher :: "string \<Rightarrow> error + File list" where
  "empty_fetcher pattern = Inr []"

definition unrelated_fetcher :: "string \<Rightarrow> error + File list" where
  "unrelated_fetcher pattern =
     (if pattern = ''manifests/*.yaml'' then Inr [\<lparr>Filename = ''manifests/other.yaml'', Data = ''a: b''\<rparr>]
      else Inr [])"

definition failing_fetcher :: "string \<Rightarrow> error + File list" where
  "failing_fetcher pattern =
     (if pattern = ''manifests/*.yml'' then Inl (LibraryError ''permission denied'') else Inr [])"

text \<open>
  The files of the seven collaborating assets in the order in which \<open>Generate\<close> appends
  them, the template files of the bootkube assets in the order in which they are
  rendered, and the control manifest's file.
\<close>

definition collaborator_files :: "'o Parents \<Rightarrow> File list" where
  "collaborator_files deps =
     ingress_Files deps @ dns_Files deps @ network_Files deps @ infra_Files deps @
     proxy_Files deps @ scheduler_Files deps @ imageContentSourcePolicy_Files deps"

definition template_files :: "'o Parents \<Rightarrow> File list" where
  "template_files deps = concat (map (bootkubeFiles deps) bootkube_assets)"

definition control_file :: "string \<Rightarrow> File" where
  "control_file kubeSysConfigData = \<lparr>Filename = kubeSysConfigPath, Data = kubeSysConfigData\<rparr>"

definition example_parents :: "string Parents" where
  "example_parents =
     \<lparr>clusterID_UUID = ''c0ffee'',
      installConfig_Config = example_config,
      installConfig_heap = example_heap,
      installConfig_Azure_CloudName = ''AzurePublicCloud'',
      etcdSignerCertKey = \<lparr>Cert = ''c1'', Key = ''k1''\<rparr>,
      etcdCABundle = \<lparr>Cert = ''c2'', Key = []\<rparr>,
      etcdSignerClientCertKey = \<lparr>Cert = ''c3'', Key = ''k3''\<rparr>,
      etcdMetricCABundle = \<lparr>Cert = ''c4'', Key = []\<rparr>,
      etcdMetricSignerClientCertKey = \<lparr>Cert = ''c5'', Key = ''k5''\<rparr>,
      etcdMetricSignerCertKey = \<lparr>Cert = ''c6'', Key = ''k6''\<rparr>,
      mcsCertKey = \<lparr>Cert = ''c7'', Key = ''k7''\<rparr>,
      rootCA = \<lparr>Cert = ''c8'', Key = ''k8''\<rparr>,
      aroDNSConfig_IngressIP = ''10.0.0.1'',
      aroImageRegistryConfig_HTTPSecret = ''s'',
      aroImageRegistryConfig_AccountName = ''account'',
      aroImageRegistryConfig_ContainerName = ''container'',
      bootkubeFiles =
        (\<lambda>a. if a = OpenshiftConfigSecretPullSecret
              then [\<lparr>Filename = ''bootkube/manifests/pull.yaml.template'',
                     Data = ''{{.PullSecretBase64}}''\<rparr>]
              else if a = EtcdNamespace
              then [\<lparr>Filename = ''bootkube/manifests/etcd-namespace.yaml'', Data = ''kind: Namespace''\<rparr>]
              else []),
      ingress_Files = [\<lparr>Filename = ''manifests/cluster-ingress-02-config.yml'', Data = ''ingress''\<rparr>],
      dns_Files = [\<lparr>Filename = ''manifests/cluster-dns-02-config.yml'', Data = ''dns''\<rparr>],
      network_Files = [],
      infra_Files = [],
      proxy_Files = [],
      scheduler_Files = [],
      imageContentSourcePolicy_Files = []\<rparr>"

definition example_files :: "File list" where
  "example_files =
     [\<lparr>Filename = ''manifests/cluster-config.yaml'',
        Data = ''pullSecret=;vsphere=:@vcenter;other=metadata''\<rparr>,
      \<lparr>Filename = ''manifests/cluster-dns-02-config.yml'', Data = ''dns''\<rparr>,
      \<lparr>Filename = ''manifests/cluster-ingress-02-config.yml'', Data = ''ingress''\<rparr>,
      \<lparr>Filename = ''manifests/etcd-namespace.yaml'', Data = ''kind: Namespace''\<rparr>,
      \<lparr>Filename = ''manifests/pull.yaml'', Data = ''YWJj''\<rparr>]"

definition example_object :: configurationObject where
  "example_object =
     configMap ''kube-system'' ''cluster-config-v1''
       [''install-config'' \<mapsto> ''pullSecret=;vsphere=:@vcenter;other=metadata'']"

definition malformed_parents :: "string Parents" where
  "malformed_parents =
     example_parents\<lparr>bootkubeFiles :=
       (\<lambda>a. if a = CVOOverrides
             then [\<lparr>Filename = ''bootkube/manifests/cvo-overrides.yaml.template'',
                    Data = ''{{.Oops}}''\<rparr>]
             else [])\<rparr>"

definition colliding_parents :: "string Parents" where
  "colliding_parents =
     example_parents\<lparr>dns_Files :=
       [\<lparr>Filename = ''manifests/cluster-ingress-02-config.yml'', Data = ''dns''\<rparr>]\<rparr>"

definition colliding_files :: "File list" where
  "colliding_files =
     [\<lparr>Filename = ''manifests/cluster-config.yaml'',
        Data = ''pullSecret=;vsphere=:@vcenter;other=metadata''\<rparr>,
      \<lparr>Filename = ''manifests/cluster-ingress-02-config.yml'', Data = ''ingress''\<rparr>,
      \<lparr>Filename = ''manifests/cluster-ingress-02-config.yml'', Data = ''dns''\<rparr>,
      \<lparr>Filename = ''manifests/etcd-namespace.yaml'', Data = ''kind: Namespace''\<rparr>,
      \<lparr>Filename = ''manifests/pull.yaml'', Data = ''YWJj''\<rparr>]"

definition example_directory :: directory where
  "example_directory =
     [(''manifests/cluster-config.yaml'', ''pullSecret=;vsphere=:@vcenter;other=metadata''),
      (''manifests/cluster-dns-02-config.yml'', ''dns''),
      (''manifests/cluster-ingress-02-config.yml'', ''ingress''),
      (''manifests/etcd-namespace.yaml'', ''kind: Namespace''),
      (''manifests/pull.yaml'', ''YWJj'')]"

text \<open>
  The conditions of the round trip: every file's name matches one of the three patterns
  that \<open>Load\<close> fetches, one file only carries the name of the control manifest, and the
  YAML decoder reads back what the encoder wrote for the control manifest.
\<close>

definition fetchable :: "File list \<Rightarrow> bool" where
  "fetchable files =
     list_all (\<lambda>f. list_ex (\<lambda>p. filepath_Match p (Filename f)) manifest_patterns) files"

definition single_control_file :: "File list \<Rightarrow> bool" where
  "single_control_file files =
     (length (filter (\<lambda>f. Filename f = kubeSysConfigPath) files) = 1)"

definition yaml_round_trip :: "('o, 't) Libraries \<Rightarrow> configurationObject option \<Rightarrow> bool" where
  "yaml_round_trip L kubeSysConfig =
     (case kubeSysConfig of
        None \<Rightarrow> False
      | Some c \<Rightarrow>
          (case yaml_Marshal_object L c of
             Inl err \<Rightarrow> False
           | Inr d \<Rightarrow> yaml_Unmarshal_object L d empty_configurationObject = Inr c))"

definition unfetched_parents :: "string Parents" where
  "unfetched_parents =
     example_parents\<lparr>proxy_Files :=
       [\<lparr>Filename = ''manifests/cluster-proxy-01-config.YAML'', Data = ''proxy''\<rparr>]\<rparr>"

definition unfetched_files :: "File list" where
  "unfetched_files =
     [\<lparr>Filename = ''manifests/cluster-config.yaml'',
        Data = ''pullSecret=;vsphere=:@vcenter;other=metadata''\<rparr>,
      \<lparr>Filename = ''manifests/cluster-dns-02-config.yml'', Data = ''dns''\<rparr>,
      \<lparr>Filename = ''manifests/cluster-ingress-02-config.yml'', Data = ''ingress''\<rparr>,
      \<lparr>Filename = ''manifests/cluster-proxy-01-config.YAML'', Data = ''proxy''\<rparr>,
      \<lparr>Filename = ''manifests/etcd-namespace.yaml'', Data = ''kind: Namespace''\<rparr>,
      \<lparr>Filename = ''manifests/pull.yaml'', Data = ''YWJj''\<rparr>]"

definition unfetched_directory :: directory where
  "unfetched_directory =
     [(''manifests/cluster-config.yaml'', ''pullSecret=;vsphere=:@vcenter;other=metadata''),
      (''manifests/cluster-dns-02-config.yml'', ''dns''),
      (''manifests/cluster-ingress-02-config.yml'', ''ingress''),
      (''manifests/cluster-proxy-01-config.YAML'', ''proxy''),
      (''manifests/etcd-namespace.yaml'', ''kind: Namespace''),
      (''manifests/pull.yaml'', ''YWJj'')]"

section \<open>Properties\<close>

subsection \<open>indent\<close>
















subsection \<open>redactedInstallConfig\<close>

lemma redacted_result:
  "valid_pointers h c \<Longrightarrow>
   snd (redactedInstallConfig M h c) = M (redact_spec (deref h c))"
  by (auto simp: redactedInstallConfig_def redact_spec_def deref_def valid_pointers_def Let_def
      nth_append split: option.splits)

lemma redacted_heap: "take (length h) (fst (redactedInstallConfig M h c)) = h"
  by (auto simp: redactedInstallConfig_def Let_def split: option.splits)

lemma redacted_view:
  "valid_pointers h c \<Longrightarrow> deref (fst (redactedInstallConfig M h c)) c = deref h c"
  by (auto simp: redactedInstallConfig_def deref_def valid_pointers_def Let_def
      nth_append split: option.splits)

lemma cleared_platform:
  "(p :: 'o VSpherePlatform)\<lparr>Username := [], Password := []\<rparr> =
     \<lparr>Username = [], Password = [], VSphereOther = VSphereOther p\<rparr>"
  by (cases p) simp

lemma redact_spec_fields:
  "PullSecret (redact_spec v) = []"
  "Publish (redact_spec v) = Publish v"
  "ImageContentSources (redact_spec v) = ImageContentSources v"
  "ConfigOther (redact_spec v) = ConfigOther v"
  "PlatformOther (Platform (redact_spec v)) = PlatformOther (Platform v)"
  "VSphere (Platform (redact_spec v)) =
     map_option (\<lambda>p. \<lparr>Username = [], Password = [], VSphereOther = VSphereOther p\<rparr>)
       (VSphere (Platform v))"
  by (simp_all add: redact_spec_def cleared_platform)

text \<open>
  Claim C1. The bytes that \<open>redactedInstallConfig\<close> returns are the encoder's output
  on the caller's configuration with the pull secret cleared, the username and the
  password of a present vSphere platform cleared, and every other field as it was; and
  the call leaves every object of the caller's heap, and so the caller's configuration,
  as it was.
\<close>

theorem redactedInstallConfig_clears_secrets_only:
  assumes "valid_pointers h config"
  shows "snd (redactedInstallConfig yaml_Marshal h config) =
           yaml_Marshal (redact_spec (deref h config)) \<and>
         PullSecret (redact_spec (deref h config)) = [] \<and>
         VSphere (Platform (redact_spec (deref h config))) =
           map_option (\<lambda>p. \<lparr>Username = [], Password = [], VSphereOther = VSphereOther p\<rparr>)
             (VSphere (Platform (deref h config))) \<and>
         Publish (redact_spec (deref h config)) = Publish config \<and>
         ImageContentSources (redact_spec (deref h config)) = ImageContentSources config \<and>
         PlatformOther (Platform (redact_spec (deref h config))) =
           PlatformOther (Platform config) \<and>
         ConfigOther (redact_spec (deref h config)) = ConfigOther config \<and>
         take (length h) (fst (redactedInstallConfig yaml_Marshal h config)) = h \<and>
         deref (fst (redactedInstallConfig yaml_Marshal h config)) config = deref h config"
  using assms
  by (simp add: redacted_result redacted_heap redacted_view redact_spec_fields)
    (simp add: deref_def)

theorem redactedInstallConfig_clears_secrets_only_witness:
  "valid_pointers example_heap example_config \<and>
   snd (redactedInstallConfig example_marshal example_heap example_config) =
     Inr ''pullSecret=;vsphere=:@vcenter;other=metadata'' \<and>
   take (length example_heap)
     (fst (redactedInstallConfig example_marshal example_heap example_config)) = example_heap"
proof -
  have v: "valid_pointers example_heap example_config"
    by (simp add: valid_pointers_def example_heap_def example_config_def)
  show ?thesis
    using v redactedInstallConfig_clears_secrets_only [OF v, of example_marshal]
    by (simp add: example_marshal_def redact_spec_def deref_def example_heap_def
        example_config_def)
qed

subsection \<open>aroWorkerRegistries\<close>

lemma write_mirrors_eq: "write_mirrors b ms = b @ concat (map mirror_block ms)"
  by (induction ms arbitrary: b) auto

lemma write_registries_eq:
  "write_registries b icss =
     b @ concat (map (\<lambda>ics. registry_block (Source ics) @
                              concat (map mirror_block (Mirrors ics))) icss)"
  by (induction icss arbitrary: b) (auto simp: write_mirrors_eq)

lemma aroWorkerRegistries_eq:
  "aroWorkerRegistries icss = dataurl_String ''text/plain'' (registries_spec icss)"
  by (simp add: aroWorkerRegistries_def registries_spec_def write_registries_eq)

lemma hex_digits_decode: "\<forall>n\<in>set [0..<16]. hex_value (hex_digit n) = Some n"
  by code_simp

lemma hex_value_hex_digit: "hex_value (hex_digit n) = Some (n mod 16)"
proof -
  have "hex_digit n = hex_digit (n mod 16)" by (simp add: hex_digit_def)
  then show ?thesis using hex_digits_decode by simp
qed

lemma unreserved_props:
  assumes "isUnreserved c"
  shows "c \<noteq> CHR ''%''" "c \<noteq> newline_char" "(of_char c :: nat) < 128"
  using assms by (auto simp: isUnreserved_def less_eq_char_def newline_char_def)

lemma hex_digit_props:
  "hex_digit n \<noteq> newline_char" "(of_char (hex_digit n) :: nat) < 128"
proof -
  have "hex_digit n \<in> set ''0123456789ABCDEF''"
    unfolding hex_digit_def by (rule nth_mem) simp
  then show "hex_digit n \<noteq> newline_char" "(of_char (hex_digit n) :: nat) < 128"
    by (auto simp: newline_char_def)
qed

lemma unescape_escape_byte:
  "dataurl_Unescape (escape_byte c @ rest) = map_option ((#) c) (dataurl_Unescape rest)"
proof (cases "isUnreserved c")
  case True
  then show ?thesis using unreserved_props(1)[OF True] by (simp add: escape_byte_def)
next
  case False
  have lt: "(of_char c :: nat) div 16 < 16"
    using nat_of_char_less_256[of c] by (simp add: less_mult_imp_div_less)
  have "char_of (16 * (of_char c div 16 mod 16) + (of_char c :: nat) mod 16) = c"
    using lt by simp
  then show ?thesis using False
    by (cases "dataurl_Unescape rest") (simp_all add: escape_byte_def hex_value_hex_digit)
qed

lemma unescape_escape: "dataurl_Unescape (dataurl_Escape s) = Some s"
  by (induction s) (simp_all add: dataurl_Escape_def unescape_escape_byte)

lemma decode_dataurl_String: "dataurl_Decode mt (dataurl_String mt d) = Some d"
  by (simp add: dataurl_Decode_def dataurl_String_def unescape_escape)

lemma escape_byte_chars:
  "x \<in> set (escape_byte c) \<Longrightarrow> x \<noteq> newline_char \<and> (of_char x :: nat) < 128"
  using unreserved_props[of c] hex_digit_props
  by (auto simp: escape_byte_def newline_char_def split: if_splits)

lemma escape_chars:
  "x \<in> set (dataurl_Escape s) \<Longrightarrow> x \<noteq> newline_char \<and> (of_char x :: nat) < 128"
  by (auto simp: dataurl_Escape_def dest: escape_byte_chars)

lemma aroWorkerRegistries_chars:
  "x \<in> set (aroWorkerRegistries icss) \<Longrightarrow> x \<noteq> newline_char \<and> (of_char x :: nat) < 128"
  using escape_chars[of x "registries_spec icss"]
  by (auto simp: aroWorkerRegistries_eq dataurl_String_def newline_char_def)

lemma example_registry_count:
  "occurrences ''[[registry]]'' (registries_spec example_sources) = 1"
  by code_simp

lemma example_mirror_count:
  "occurrences ''[[registry.mirror]]'' (registries_spec example_sources) = 2"
  by code_simp

lemma example_location_count:
  "occurrences (''location = '' @ dquote @ ''registry.local'' @ dquote)
     (registries_spec example_sources) = 1"
  by code_simp

text \<open>
  Claim C4. The string of \<open>aroWorkerRegistries\<close> is the data URL of the block made of
  the default line and then, per entry in order, the entry's \<open>[[registry]]\<close> block
  followed by one \<open>[[registry.mirror]]\<close> block per mirror in order; decoding the URL
  gives the block back; the URL has no line break and only ASCII characters. For the
  entry with source \<open>registry.local\<close> and mirrors \<open>mirror1\<close> and \<open>mirror2\<close> the block has
  one \<open>[[registry]]\<close> entry, whose location is \<open>registry.local\<close>, and two
  \<open>[[registry.mirror]]\<close> entries.
\<close>

theorem aroWorkerRegistries_is_data_url_of_block:
  "aroWorkerRegistries icss = dataurl_String ''text/plain'' (registries_spec icss) \<and>
   dataurl_Decode ''text/plain'' (aroWorkerRegistries icss) = Some (registries_spec icss) \<and>
   newline_char \<notin> set (aroWorkerRegistries icss) \<and>
   (\<forall>c \<in> set (aroWorkerRegistries icss). (of_char c :: nat) < 128) \<and>
   occurrences ''[[registry]]'' (registries_spec example_sources) = 1 \<and>
   occurrences (''location = '' @ dquote @ ''registry.local'' @ dquote)
     (registries_spec example_sources) = 1 \<and>
   occurrences ''[[registry.mirror]]'' (registries_spec example_sources) = 2"
proof -
  have "dataurl_Decode ''text/plain'' (aroWorkerRegistries icss) = Some (registries_spec icss)"
    by (simp add: aroWorkerRegistries_eq decode_dataurl_String)
  moreover have "newline_char \<notin> set (aroWorkerRegistries icss)"
    using aroWorkerRegistries_chars by blast
  moreover have "\<forall>c \<in> set (aroWorkerRegistries icss). (of_char c :: nat) < 128"
    using aroWorkerRegistries_chars by blast
  ultimately show ?thesis
    using aroWorkerRegistries_eq [of icss] example_registry_count example_mirror_count
      example_location_count
    by blast
qed

theorem aroWorkerRegistries_is_data_url_of_block_witness:
  "aroWorkerRegistries [] =
     ''data:text/plain,unqualified-search-registries%20%3D%20%5B%22registry.access.redhat.com%22%2C%20%22docker.io%22%5D%0A'' \<and>
   CHR ''d'' \<in> set (aroWorkerRegistries []) \<and> (of_char CHR ''d'' :: nat) < 128"
proof -
  have "registries_spec [] = registries_header"
    by (simp add: registries_spec_def)
  moreover have "dataurl_String ''text/plain'' registries_header =
     ''data:text/plain,unqualified-search-registries%20%3D%20%5B%22registry.access.redhat.com%22%2C%20%22docker.io%22%5D%0A''"
    by code_simp
  ultimately show ?thesis
    using aroWorkerRegistries_is_data_url_of_block [of "[]"] by simp
qed

subsection \<open>Load\<close>

lemma kubeSysConfigPath_eq: "kubeSysConfigPath = ''manifests/cluster-config.yaml''"
  by (simp add: kubeSysConfigPath_def manifestDir_def filepath_Clean_def)

lemma manifest_patterns_eq:
  "filepath_Join [manifestDir, ''*.yaml''] = ''manifests/*.yaml''"
  "filepath_Join [manifestDir, ''*.yml''] = ''manifests/*.yml''"
  "filepath_Join [manifestDir, ''*.json''] = ''manifests/*.json''"
  by (simp_all add: manifestDir_def filepath_Clean_def)

lemma Load_unfold:
  "Load L fetch m =
     (case fetch ''manifests/*.yaml'' of
        Inl err \<Rightarrow> (m, False, Some (Wrap err ''failed to load *.yaml files''))
      | Inr ys \<Rightarrow>
     (case fetch ''manifests/*.yml'' of
        Inl err \<Rightarrow> (m, False, Some (Wrap err ''failed to load *.yml files''))
      | Inr ms \<Rightarrow>
     (case fetch ''manifests/*.json'' of
        Inl err \<Rightarrow> (m, False, Some (Wrap err ''failed to load *.json files''))
      | Inr js \<Rightarrow>
          if ys @ ms @ js = [] then (m, False, None)
          else (case load_loop L (ys @ ms @ js) empty_configurationObject False of
                  Inl err \<Rightarrow> (m, False, Some err)
                | Inr (kubeSysConfig, found) \<Rightarrow>
                    if \<not> found then (m, False, None)
                    else (\<lparr>KubeSysConfig = Some kubeSysConfig,
                           FileList = SortFiles (ys @ ms @ js)\<rparr>, True, None)))))"
  unfolding Load_def manifest_patterns_eq
  by (cases m) (simp add: Let_def split: sum.splits prod.splits)

lemma load_loop_no_control:
  "\<forall>f \<in> set files. Filename f \<noteq> kubeSysConfigPath \<Longrightarrow>
   load_loop L files c found = Inr (c, found)"
  by (induction files) auto

text \<open>
  Claim C3. When the three fetches together yield no file, \<open>Load\<close> returns
  \<open>(false, nil)\<close>; when they yield files none of which is named
  \<open>manifests/cluster-config.yaml\<close>, it returns \<open>(false, nil)\<close> as well; and when a fetch
  fails (the earlier ones having succeeded), it returns \<open>false\<close> and the error wrapped
  with the context of the failing pattern. In each of these cases the receiver is left
  as it was, so no file is stored.
\<close>

theorem Load_absent_or_failed:
  "(fetch ''manifests/*.yaml'' = Inr ys \<and> fetch ''manifests/*.yml'' = Inr ms \<and>
    fetch ''manifests/*.json'' = Inr js \<and> ys @ ms @ js = [] \<longrightarrow>
      Load L fetch m = (m, False, None)) \<and>
   (fetch ''manifests/*.yaml'' = Inr ys \<and> fetch ''manifests/*.yml'' = Inr ms \<and>
    fetch ''manifests/*.json'' = Inr js \<and>
    (\<forall>f \<in> set (ys @ ms @ js). Filename f \<noteq> ''manifests/cluster-config.yaml'') \<longrightarrow>
      Load L fetch m = (m, False, None)) \<and>
   (fetch ''manifests/*.yaml'' = Inl e \<longrightarrow>
      Load L fetch m = (m, False, Some (Wrap e ''failed to load *.yaml files''))) \<and>
   (fetch ''manifests/*.yaml'' = Inr ys \<and> fetch ''manifests/*.yml'' = Inl e \<longrightarrow>
      Load L fetch m = (m, False, Some (Wrap e ''failed to load *.yml files''))) \<and>
   (fetch ''manifests/*.yaml'' = Inr ys \<and> fetch ''manifests/*.yml'' = Inr ms \<and>
    fetch ''manifests/*.json'' = Inl e \<longrightarrow>
      Load L fetch m = (m, False, Some (Wrap e ''failed to load *.json files'')))"
proof -
  have none: "Load L fetch m = (m, False, None)"
    if "fetch ''manifests/*.yaml'' = Inr ys" "fetch ''manifests/*.yml'' = Inr ms"
      "fetch ''manifests/*.json'' = Inr js"
      "\<forall>f \<in> set (ys @ ms @ js). Filename f \<noteq> ''manifests/cluster-config.yaml''"
  proof -
    have "load_loop L (ys @ ms @ js) empty_configurationObject False =
            Inr (empty_configurationObject, False)"
      using that(4) by (intro load_loop_no_control) (simp add: kubeSysConfigPath_eq)
    then show ?thesis
      using that(1-3) by (simp add: Load_unfold)
  qed
  have empty: "Load L fetch m = (m, False, None)"
    if "fetch ''manifests/*.yaml'' = Inr ys" "fetch ''manifests/*.yml'' = Inr ms"
      "fetch ''manifests/*.json'' = Inr js" "ys @ ms @ js = []"
    using that by (simp add: Load_unfold)
  show ?thesis
    using none empty by (simp add: Load_unfold)
qed


theorem Load_absent_or_failed_witness:
  "Load example_libraries empty_fetcher fresh_Manifests = (fresh_Manifests, False, None) \<and>
   Load example_libraries unrelated_fetcher fresh_Manifests = (fresh_Manifests, False, None) \<and>
   Load example_libraries failing_fetcher fresh_Manifests =
     (fresh_Manifests, False,
      Some (Wrap (LibraryError ''permission denied'') ''failed to load *.yml files''))"
  using Load_absent_or_failed [where fetch = empty_fetcher and ys = "[]" and ms = "[]"
      and js = "[]" and L = example_libraries and m = fresh_Manifests]
    Load_absent_or_failed [where fetch = unrelated_fetcher
      and ys = "[\<lparr>Filename = ''manifests/other.yaml'', Data = ''a: b''\<rparr>]" and ms = "[]"
      and js = "[]" and L = example_libraries and m = fresh_Manifests]
    Load_absent_or_failed [where fetch = failing_fetcher and ys = "[]"
      and e = "LibraryError ''permission denied''" and L = example_libraries
      and m = fresh_Manifests]
  by (simp add: empty_fetcher_def unrelated_fetcher_def failing_fetcher_def)

subsection \<open>Generate\<close>

lemma render_files_Returns:
  "render_files L td files fs = Returns out \<Longrightarrow>
   \<exists>rs. out = files @ rs \<and> map Filename rs = map (rendered_name \<circ> Filename) fs \<and>
        list_all2 (\<lambda>f r. applyTemplateData L (Data f) td = Returns (Data r)) fs rs"
proof (induction fs arbitrary: files)
  case Nil
  then show ?case by simp
next
  case (Cons f fs)
  from Cons.prems obtain rendered where r: "applyTemplateData L (Data f) td = Returns rendered"
    and rest: "render_files L td (files @ [\<lparr>Filename = rendered_name (Filename f), Data = rendered\<rparr>]) fs
               = Returns out"
    by (auto split: exec.splits)
  from Cons.IH [OF rest] obtain rs where
    "out = (files @ [\<lparr>Filename = rendered_name (Filename f), Data = rendered\<rparr>]) @ rs"
    "map Filename rs = map (rendered_name \<circ> Filename) fs"
    "list_all2 (\<lambda>f r. applyTemplateData L (Data f) td = Returns (Data r)) fs rs"
    by blast
  then show ?case
    using r
    by (intro exI [of _ "\<lparr>Filename = rendered_name (Filename f), Data = rendered\<rparr> # rs"]) simp
qed

lemma render_files_Panics:
  "f \<in> set fs \<Longrightarrow> applyTemplateData L (Data f) td = Panics \<Longrightarrow>
   render_files L td files fs = Panics"
  by (induction fs arbitrary: files) (auto split: exec.splits)

lemma render_assets_Returns:
  "render_assets L deps td files as = Returns out \<Longrightarrow>
   \<exists>rs. out = files @ rs \<and>
        map Filename rs = map (rendered_name \<circ> Filename) (concat (map (bootkubeFiles deps) as)) \<and>
        list_all2 (\<lambda>f r. applyTemplateData L (Data f) td = Returns (Data r))
          (concat (map (bootkubeFiles deps) as)) rs"
proof (induction as arbitrary: files)
  case Nil
  then show ?case by simp
next
  case (Cons a as)
  from Cons.prems obtain files' where
    one: "render_files L td files (bootkubeFiles deps a) = Returns files'"
    and rest: "render_assets L deps td files' as = Returns out"
    by (auto split: exec.splits)
  from render_files_Returns [OF one] obtain rs1 where rs1:
    "files' = files @ rs1" "map Filename rs1 = map (rendered_name \<circ> Filename) (bootkubeFiles deps a)"
    "list_all2 (\<lambda>f r. applyTemplateData L (Data f) td = Returns (Data r)) (bootkubeFiles deps a) rs1"
    by blast
  from Cons.IH [OF rest] obtain rs2 where rs2:
    "out = files' @ rs2"
    "map Filename rs2 = map (rendered_name \<circ> Filename) (concat (map (bootkubeFiles deps) as))"
    "list_all2 (\<lambda>f r. applyTemplateData L (Data f) td = Returns (Data r))
       (concat (map (bootkubeFiles deps) as)) rs2"
    by blast
  show ?case
    using rs1 rs2 by (intro exI [of _ "rs1 @ rs2"]) (simp add: list_all2_appendI)
qed

lemma render_assets_Panics:
  "a \<in> set as \<Longrightarrow> f \<in> set (bootkubeFiles deps a) \<Longrightarrow>
   applyTemplateData L (Data f) td = Panics \<Longrightarrow>
   render_assets L deps td files as = Panics"
proof (induction as arbitrary: files)
  case Nil
  then show ?case by simp
next
  case (Cons b as)
  show ?case
  proof (cases "render_files L td files (bootkubeFiles deps b)")
    case Panics
    then show ?thesis by simp
  next
    case (Returns files')
    have "a \<noteq> b"
      using Returns Cons.prems(2,3) render_files_Panics [of f "bootkubeFiles deps b" L td files]
      by auto
    then show ?thesis using Returns Cons by simp
  qed
qed

lemma generateBootKubeManifests_Returns:
  "generateBootKubeManifests L deps = Returns bootkube \<Longrightarrow>
   map Filename bootkube = map (rendered_name \<circ> Filename) (template_files deps) \<and>
   list_all2 (\<lambda>f r. applyTemplateData L (Data f) (templateData_of deps) = Returns (Data r))
     (template_files deps) bootkube"
  using render_assets_Returns [of L deps "templateData_of deps" "[]" bootkube_assets bootkube]
  by (auto simp: generateBootKubeManifests_def template_files_def)

lemma generateBootKubeManifests_Panics:
  "a \<in> set bootkube_assets \<Longrightarrow> f \<in> set (bootkubeFiles deps a) \<Longrightarrow>
   applyTemplateData L (Data f) (templateData_of deps) = Panics \<Longrightarrow>
   generateBootKubeManifests L deps = Panics"
  by (simp add: generateBootKubeManifests_def render_assets_Panics)

lemma Generate_unfold:
  "Generate L deps m0 =
     (case snd (redactedInstallConfig (yaml_Marshal_config L)
                  (installConfig_heap deps) (installConfig_Config deps)) of
        Inl err \<Rightarrow> Returns (m0, Some (Wrap err ''failed to redact install-config''))
      | Inr redactedConfig \<Rightarrow>
          (let kubeSysConfig = configMap ''kube-system'' ''cluster-config-v1''
                                 [''install-config'' \<mapsto> redactedConfig]
           in case yaml_Marshal_object L kubeSysConfig of
                Inl err \<Rightarrow>
                  Returns (m0\<lparr>KubeSysConfig := Some kubeSysConfig\<rparr>, Some (Wrap err
                    ''failed to create kube-system/cluster-config-v1 configmap''))
              | Inr kubeSysConfigData \<Rightarrow>
                  (case generateBootKubeManifests L deps of
                     Panics \<Rightarrow> Panics
                   | Returns bootkube \<Rightarrow>
                       Returns (\<lparr>KubeSysConfig = Some kubeSysConfig,
                                 FileList = SortFiles (control_file kubeSysConfigData # bootkube @
                                                       collaborator_files deps)\<rparr>, None))))"
  by (cases m0)
    (simp add: Generate_def Let_def collaborator_files_def control_file_def
      split: prod.splits sum.splits exec.splits)

lemma Generate_success:
  assumes "Generate L deps m0 = Returns (m, None)"
  obtains redactedConfig kubeSysConfigData bootkube where
    "snd (redactedInstallConfig (yaml_Marshal_config L)
            (installConfig_heap deps) (installConfig_Config deps)) = Inr redactedConfig"
    "yaml_Marshal_object L (configMap ''kube-system'' ''cluster-config-v1''
        [''install-config'' \<mapsto> redactedConfig]) = Inr kubeSysConfigData"
    "generateBootKubeManifests L deps = Returns bootkube"
    "KubeSysConfig m = Some (configMap ''kube-system'' ''cluster-config-v1''
        [''install-config'' \<mapsto> redactedConfig])"
    "FileList m = SortFiles (control_file kubeSysConfigData # bootkube @ collaborator_files deps)"
  using assms unfolding Generate_unfold
  by (auto simp: Let_def split: sum.splits exec.splits)

subsection \<open>The example run\<close>

lemma example_parents_fields:
  "installConfig_Config example_parents = example_config"
  "installConfig_heap example_parents = example_heap"
  "collaborator_files example_parents =
     [\<lparr>Filename = ''manifests/cluster-ingress-02-config.yml'', Data = ''ingress''\<rparr>,
      \<lparr>Filename = ''manifests/cluster-dns-02-config.yml'', Data = ''dns''\<rparr>]"
  by (simp_all add: example_parents_def collaborator_files_def)

lemma example_template_files:
  "template_files example_parents =
     [\<lparr>Filename = ''bootkube/manifests/etcd-namespace.yaml'', Data = ''kind: Namespace''\<rparr>,
      \<lparr>Filename = ''bootkube/manifests/pull.yaml.template'', Data = ''{{.PullSecretBase64}}''\<rparr>]"
  by (simp add: template_files_def bootkube_assets_def example_parents_def)

lemma example_base64: "base64_EncodeToString ''abc'' = ''YWJj''"
  by (simp add: base64_char_def base64_alphabet_def)

lemma example_PullSecretBase64: "PullSecretBase64 (templateData_of example_parents) = ''YWJj''"
  using example_base64
  by (simp add: templateData_of_def example_parents_fields example_config_def)

lemma example_rendered_names:
  "rendered_name ''bootkube/manifests/pull.yaml.template'' = ''manifests/pull.yaml''"
  "rendered_name ''bootkube/manifests/etcd-namespace.yaml'' = ''manifests/etcd-namespace.yaml''"
  by (simp_all add: rendered_name_def filepath_Base_def strings_TrimSuffix_def manifestDir_def
      filepath_Clean_def suffix_to_prefix)

lemma example_renderings:
  "applyTemplateData example_libraries ''{{.PullSecretBase64}}'' (templateData_of example_parents)
     = Returns ''YWJj''"
  "applyTemplateData example_libraries ''kind: Namespace'' td = Returns ''kind: Namespace''"
  by (simp_all add: applyTemplateData_def example_libraries_def suffix_to_prefix
      example_PullSecretBase64)

lemma example_bootkube:
  "generateBootKubeManifests example_libraries example_parents =
     Returns [\<lparr>Filename = ''manifests/etcd-namespace.yaml'', Data = ''kind: Namespace''\<rparr>,
              \<lparr>Filename = ''manifests/pull.yaml'', Data = ''YWJj''\<rparr>]"
proof -
  have files: "bootkubeFiles example_parents =
        (\<lambda>a. if a = OpenshiftConfigSecretPullSecret
              then [\<lparr>Filename = ''bootkube/manifests/pull.yaml.template'',
                     Data = ''{{.PullSecretBase64}}''\<rparr>]
              else if a = EtcdNamespace
              then [\<lparr>Filename = ''bootkube/manifests/etcd-namespace.yaml'', Data = ''kind: Namespace''\<rparr>]
              else [])"
    by (simp add: example_parents_def)
  show ?thesis
    by (simp add: generateBootKubeManifests_def bootkube_assets_def files example_renderings
        example_rendered_names)
qed


lemma example_libraries_fields:
  "yaml_Marshal_config example_libraries = example_marshal"
  "yaml_Marshal_object example_libraries example_object =
     Inr ''pullSecret=;vsphere=:@vcenter;other=metadata''"
  "yaml_Unmarshal_object example_libraries
     ''pullSecret=;vsphere=:@vcenter;other=metadata'' c = Inr example_object"
  by (simp_all add: example_libraries_def example_object_def configMap_def)

lemma example_redacted:
  "snd (redactedInstallConfig example_marshal example_heap example_config) =
     Inr ''pullSecret=;vsphere=:@vcenter;other=metadata''"
  by (simp add: redactedInstallConfig_def example_marshal_def deref_def example_heap_def
      example_config_def)

lemma example_sorted:
  "SortFiles
     [\<lparr>Filename = ''manifests/cluster-config.yaml'',
        Data = ''pullSecret=;vsphere=:@vcenter;other=metadata''\<rparr>,
      \<lparr>Filename = ''manifests/etcd-namespace.yaml'', Data = ''kind: Namespace''\<rparr>,
      \<lparr>Filename = ''manifests/pull.yaml'', Data = ''YWJj''\<rparr>,
      \<lparr>Filename = ''manifests/cluster-ingress-02-config.yml'', Data = ''ingress''\<rparr>,
      \<lparr>Filename = ''manifests/cluster-dns-02-config.yml'', Data = ''dns''\<rparr>] = example_files"
  by code_simp

lemma example_Generate:
  "Generate example_libraries example_parents m0 =
     Returns (\<lparr>KubeSysConfig = Some example_object, FileList = example_files\<rparr>, None)"
  using example_sorted
  by (simp add: Generate_unfold example_parents_fields example_libraries_fields
      example_redacted example_object_def [symmetric] example_bootkube control_file_def
      kubeSysConfigPath_eq)

subsection \<open>Template faults\<close>

lemma applyTemplateData_Panics_iff:
  "(applyTemplateData L data td = Panics) =
     ((\<exists>e. template_Parse L data = Inl e) \<or>
      (\<exists>t e. template_Parse L data = Inr t \<and> template_Execute L t td = Inl e))"
  by (auto simp: applyTemplateData_def split: sum.splits)

lemma Generate_Panics:
  assumes "snd (redactedInstallConfig (yaml_Marshal_config L)
                  (installConfig_heap deps) (installConfig_Config deps)) = Inr r"
    and "yaml_Marshal_object L (configMap ''kube-system'' ''cluster-config-v1''
           [''install-config'' \<mapsto> r]) = Inr d"
    and "a \<in> set bootkube_assets" and "f \<in> set (bootkubeFiles deps a)"
    and "applyTemplateData L (Data f) (templateData_of deps) = Panics"
  shows "Generate L deps m0 = Panics"
  using assms generateBootKubeManifests_Panics [of a f deps L]
  by (simp add: Generate_unfold)

text \<open>
  Claim C7. Rendering a template whose text does not parse, or whose execution on the
  template context fails, panics; \<open>applyTemplateData\<close> has no error result, it returns
  the rendered bytes exactly when parsing and execution both succeed. When \<open>Generate\<close>
  reaches the rendering (redaction and the encoding of the control manifest having
  succeeded) and one of the bundled templates is malformed, \<open>Generate\<close> panics instead
  of returning an error.
\<close>

theorem malformed_template_panics:
  "(template_Parse L data = Inl e \<longrightarrow> applyTemplateData L data td = Panics) \<and>
   (template_Parse L data = Inr t \<and> template_Execute L t td = Inl e \<longrightarrow>
      applyTemplateData L data td = Panics) \<and>
   (applyTemplateData L data td = Returns out \<longleftrightarrow>
      (\<exists>t. template_Parse L data = Inr t \<and> template_Execute L t td = Inr out)) \<and>
   (snd (redactedInstallConfig (yaml_Marshal_config L)
           (installConfig_heap deps) (installConfig_Config deps)) = Inr r \<and>
    yaml_Marshal_object L (configMap ''kube-system'' ''cluster-config-v1''
           [''install-config'' \<mapsto> r]) = Inr d \<and>
    a \<in> set bootkube_assets \<and> f \<in> set (bootkubeFiles deps a) \<and>
    applyTemplateData L (Data f) (templateData_of deps) = Panics \<longrightarrow>
      Generate L deps rcv = Panics)"
proof -
  have "applyTemplateData L data td = Returns out \<longleftrightarrow>
      (\<exists>t. template_Parse L data = Inr t \<and> template_Execute L t td = Inr out)"
    by (auto simp: applyTemplateData_def split: sum.splits)
  then show ?thesis
    using Generate_Panics [of L deps r d a f rcv]
    by (auto simp: applyTemplateData_Panics_iff)
qed

lemma malformed_parents_fields:
  "installConfig_Config malformed_parents = example_config"
  "installConfig_heap malformed_parents = example_heap"
  "bootkubeFiles malformed_parents CVOOverrides =
     [\<lparr>Filename = ''bootkube/manifests/cvo-overrides.yaml.template'', Data = ''{{.Oops}}''\<rparr>]"
  by (simp_all add: malformed_parents_def example_parents_fields)

lemma example_template_faults:
  "template_Parse example_libraries ''{{.Oops'' = Inl (LibraryError ''unclosed action'')"
  "template_Parse example_libraries ''{{.Oops}}'' = Inr ''{{.Oops}}''"
  "template_Execute example_libraries ''{{.Oops}}'' td = Inl (LibraryError ''unknown field'')"
  by (simp_all add: example_libraries_def suffix_to_prefix)

theorem malformed_template_panics_witness:
  "applyTemplateData example_libraries ''{{.Oops'' (templateData_of malformed_parents) = Panics \<and>
   applyTemplateData example_libraries ''{{.Oops}}'' (templateData_of malformed_parents) = Panics \<and>
   CVOOverrides \<in> set bootkube_assets \<and>
   Generate example_libraries malformed_parents fresh_Manifests = Panics"
proof -
  let ?td = "templateData_of malformed_parents"
  let ?f = "\<lparr>Filename = ''bootkube/manifests/cvo-overrides.yaml.template'', Data = ''{{.Oops}}''\<rparr>"
  have a: "CVOOverrides \<in> set bootkube_assets"
    by (simp add: bootkube_assets_def)
  have p1: "applyTemplateData example_libraries ''{{.Oops'' ?td = Panics"
    using malformed_template_panics [where L = example_libraries and data = "''{{.Oops''"
        and e = "LibraryError ''unclosed action''" and td = ?td]
    by (simp add: example_template_faults)
  have p2: "applyTemplateData example_libraries ''{{.Oops}}'' ?td = Panics"
    using malformed_template_panics [where L = example_libraries and data = "''{{.Oops}}''"
        and t = "''{{.Oops}}''" and e = "LibraryError ''unknown field''" and td = ?td]
    by (simp add: example_template_faults)
  have "Generate example_libraries malformed_parents fresh_Manifests = Panics"
    using malformed_template_panics [where L = example_libraries and deps = malformed_parents
        and r = "''pullSecret=;vsphere=:@vcenter;other=metadata''"
        and d = "''pullSecret=;vsphere=:@vcenter;other=metadata''"
        and a = CVOOverrides and f = ?f and rcv = fresh_Manifests]
      a p2 example_libraries_fields(2)
    by (simp add: malformed_parents_fields example_libraries_fields(1) example_redacted
        example_object_def)
  with a p1 p2 show ?thesis by simp
qed

subsection \<open>The pull secret in the template context\<close>

lemma base64_nonempty: "s \<noteq> [] \<Longrightarrow> base64_EncodeToString s \<noteq> []"
  by (cases s rule: base64_EncodeToString.cases) (simp_all add: Let_def)

lemma set_SortFiles: "set (SortFiles files) = set files"
  by (simp add: SortFiles_def)

lemma rendered_member:
  assumes "list_all2 (\<lambda>f r. applyTemplateData L (Data f) td = Returns (Data r)) fs rs"
    and "map Filename rs = map (rendered_name \<circ> Filename) fs"
    and "f \<in> set fs"
  shows "\<exists>out. applyTemplateData L (Data f) td = Returns out \<and>
           \<lparr>Filename = rendered_name (Filename f), Data = out\<rparr> \<in> set rs"
proof -
  from assms(3) obtain i where i: "i < length fs" "fs ! i = f"
    by (auto simp: in_set_conv_nth)
  have len: "length rs = length fs"
    using assms(1) by (simp add: list_all2_lengthD)
  have "applyTemplateData L (Data f) td = Returns (Data (rs ! i))"
    using list_all2_nthD [OF assms(1) i(1)] i(2) by simp
  moreover have "Filename (rs ! i) = rendered_name (Filename f)"
    using arg_cong [OF assms(2), of "\<lambda>xs. xs ! i"] i len by simp
  moreover have "rs ! i \<in> set rs"
    using i(1) len by simp
  ultimately show ?thesis
    by (intro exI [of _ "Data (rs ! i)"]) (cases "rs ! i", simp)
qed

text \<open>
  Claim C9. The template context carries the base64 encoding of the original pull
  secret, which is not empty when the secret is not. After a successful \<open>Generate\<close> the
  control manifest embeds the encoding of the configuration whose pull secret is
  cleared, while every bundled template is rendered on that template context and its
  rendering is one of the generated files.
\<close>

theorem template_context_keeps_pull_secret:
  "PullSecretBase64 (templateData_of deps) =
     base64_EncodeToString (PullSecret (installConfig_Config deps)) \<and>
   (PullSecret (installConfig_Config deps) \<noteq> [] \<longrightarrow>
      PullSecretBase64 (templateData_of deps) \<noteq> []) \<and>
   (valid_pointers (installConfig_heap deps) (installConfig_Config deps) \<and>
    Generate L deps rcv = Returns (m, None) \<longrightarrow>
      (\<exists>redacted kubeSysConfigData.
         yaml_Marshal_config L
           (redact_spec (deref (installConfig_heap deps) (installConfig_Config deps))) =
           Inr redacted \<and>
         PullSecret (redact_spec (deref (installConfig_heap deps) (installConfig_Config deps)))
           = [] \<and>
         KubeSysConfig m = Some (configMap ''kube-system'' ''cluster-config-v1''
                                   [''install-config'' \<mapsto> redacted]) \<and>
         yaml_Marshal_object L (configMap ''kube-system'' ''cluster-config-v1''
                                   [''install-config'' \<mapsto> redacted]) = Inr kubeSysConfigData \<and>
         control_file kubeSysConfigData \<in> set (FileList m)) \<and>
      (\<forall>f \<in> set (template_files deps).
         \<exists>out. applyTemplateData L (Data f) (templateData_of deps) = Returns out \<and>
               \<lparr>Filename = rendered_name (Filename f), Data = out\<rparr> \<in> set (FileList m)))"
proof -
  have enc: "PullSecretBase64 (templateData_of deps) =
     base64_EncodeToString (PullSecret (installConfig_Config deps))"
    by (simp add: templateData_of_def)
  have gen: "(\<exists>redacted kubeSysConfigData.
         yaml_Marshal_config L
           (redact_spec (deref (installConfig_heap deps) (installConfig_Config deps))) =
           Inr redacted \<and>
         PullSecret (redact_spec (deref (installConfig_heap deps) (installConfig_Config deps)))
           = [] \<and>
         KubeSysConfig m = Some (configMap ''kube-system'' ''cluster-config-v1''
                                   [''install-config'' \<mapsto> redacted]) \<and>
         yaml_Marshal_object L (configMap ''kube-system'' ''cluster-config-v1''
                                   [''install-config'' \<mapsto> redacted]) = Inr kubeSysConfigData \<and>
         control_file kubeSysConfigData \<in> set (FileList m)) \<and>
      (\<forall>f \<in> set (template_files deps).
         \<exists>out. applyTemplateData L (Data f) (templateData_of deps) = Returns out \<and>
               \<lparr>Filename = rendered_name (Filename f), Data = out\<rparr> \<in> set (FileList m))"
    if v: "valid_pointers (installConfig_heap deps) (installConfig_Config deps)"
      and g: "Generate L deps rcv = Returns (m, None)"
  proof -
    from g obtain redacted kubeSysConfigData bootkube where
      r: "snd (redactedInstallConfig (yaml_Marshal_config L)
            (installConfig_heap deps) (installConfig_Config deps)) = Inr redacted"
      and d: "yaml_Marshal_object L (configMap ''kube-system'' ''cluster-config-v1''
            [''install-config'' \<mapsto> redacted]) = Inr kubeSysConfigData"
      and b: "generateBootKubeManifests L deps = Returns bootkube"
      and k: "KubeSysConfig m = Some (configMap ''kube-system'' ''cluster-config-v1''
            [''install-config'' \<mapsto> redacted])"
      and fl: "FileList m = SortFiles (control_file kubeSysConfigData # bootkube @
                                       collaborator_files deps)"
      by (rule Generate_success)
    have r': "yaml_Marshal_config L
           (redact_spec (deref (installConfig_heap deps) (installConfig_Config deps))) =
           Inr redacted"
      using r redacted_result [OF v, of "yaml_Marshal_config L"] by simp
    have first: "\<exists>redacted kubeSysConfigData.
         yaml_Marshal_config L
           (redact_spec (deref (installConfig_heap deps) (installConfig_Config deps))) =
           Inr redacted \<and>
         PullSecret (redact_spec (deref (installConfig_heap deps) (installConfig_Config deps)))
           = [] \<and>
         KubeSysConfig m = Some (configMap ''kube-system'' ''cluster-config-v1''
                                   [''install-config'' \<mapsto> redacted]) \<and>
         yaml_Marshal_object L (configMap ''kube-system'' ''cluster-config-v1''
                                   [''install-config'' \<mapsto> redacted]) = Inr kubeSysConfigData \<and>
         control_file kubeSysConfigData \<in> set (FileList m)"
      using r' k d fl
      by (intro exI [of _ redacted] exI [of _ kubeSysConfigData])
        (simp add: redact_spec_fields set_SortFiles)
    have second: "\<exists>out. applyTemplateData L (Data f) (templateData_of deps) = Returns out \<and>
               \<lparr>Filename = rendered_name (Filename f), Data = out\<rparr> \<in> set (FileList m)"
      if "f \<in> set (template_files deps)" for f
    proof -
      from generateBootKubeManifests_Returns [OF b]
      have "\<exists>out. applyTemplateData L (Data f) (templateData_of deps) = Returns out \<and>
           \<lparr>Filename = rendered_name (Filename f), Data = out\<rparr> \<in> set bootkube"
        using that by (intro rendered_member) simp_all
      then show ?thesis by (auto simp: fl set_SortFiles)
    qed
    from first second show ?thesis by blast
  qed
  have ne: "PullSecret (installConfig_Config deps) \<noteq> [] \<longrightarrow>
      PullSecretBase64 (templateData_of deps) \<noteq> []"
    using base64_nonempty [of "PullSecret (installConfig_Config deps)"] by (simp add: enc)
  from enc ne gen show ?thesis
    by (intro conjI impI) (assumption | blast)+
qed


lemma example_valid_pointers: "valid_pointers example_heap example_config"
  by (simp add: valid_pointers_def example_heap_def example_config_def)

theorem template_context_keeps_pull_secret_witness:
  "PullSecret (installConfig_Config example_parents) = ''abc'' \<and>
   PullSecretBase64 (templateData_of example_parents) = ''YWJj'' \<and>
   valid_pointers (installConfig_heap example_parents) (installConfig_Config example_parents) \<and>
   Generate example_libraries example_parents fresh_Manifests =
     Returns (\<lparr>KubeSysConfig = Some example_object, FileList = example_files\<rparr>, None) \<and>
   \<lparr>Filename = ''manifests/pull.yaml'', Data = ''YWJj''\<rparr> \<in> set example_files \<and>
   ObjectData example_object ''install-config'' =
     Some ''pullSecret=;vsphere=:@vcenter;other=metadata''"
proof -
  have secret: "PullSecret (installConfig_Config example_parents) = ''abc''"
    by (simp add: example_parents_fields example_config_def)
  have "PullSecretBase64 (templateData_of example_parents) =
          base64_EncodeToString (PullSecret (installConfig_Config example_parents))"
    using template_context_keeps_pull_secret [where deps = example_parents
        and L = example_libraries and rcv = fresh_Manifests
        and m = "\<lparr>KubeSysConfig = Some example_object, FileList = example_files\<rparr>"]
    by (rule conjunct1)
  then have enc: "PullSecretBase64 (templateData_of example_parents) = ''YWJj''"
    by (simp only: secret example_base64)
  have "\<lparr>Filename = ''manifests/pull.yaml'', Data = ''YWJj''\<rparr> \<in> set example_files"
    by (simp add: example_files_def)
  moreover have "ObjectData example_object ''install-config'' =
     Some ''pullSecret=;vsphere=:@vcenter;other=metadata''"
    by (simp add: example_object_def configMap_def)
  ultimately show ?thesis
    using secret enc example_valid_pointers example_Generate [of fresh_Manifests]
    by (simp add: example_parents_fields)
qed

subsection \<open>Order and uniqueness of the file names\<close>

lemma sorted_SortFiles: "sorted (map Filename (SortFiles files))"
  by (simp add: SortFiles_def)

lemma distinct_names_sort_key:
  "distinct (map f (sort_key f xs)) = distinct (map f xs)"
  by (induction xs) (simp_all add: distinct_insort_key)

lemma distinct_names_SortFiles:
  "distinct (map Filename (SortFiles files)) = distinct (map Filename files)"
  by (simp add: SortFiles_def distinct_names_sort_key)

lemma Load_found:
  assumes "Load L fetch rcv = (m, True, err)"
  shows "\<exists>files. FileList m = SortFiles files"
  using assms unfolding Load_unfold
  by (auto split: sum.splits if_splits prod.splits)

text \<open>
  Claim C6. After a successful \<open>Generate\<close>, and after a \<open>Load\<close> that reports the
  manifests as found, the file list is sorted by filename.
\<close>

theorem FileList_sorted_by_filename:
  "(Generate L deps rcv = Returns (m, None) \<longrightarrow> sorted (map Filename (FileList m))) \<and>
   (Load L fetch rcv' = (m', True, err) \<longrightarrow> sorted (map Filename (FileList m')))"
proof (intro conjI impI)
  assume "Generate L deps rcv = Returns (m, None)"
  then show "sorted (map Filename (FileList m))"
    by (elim Generate_success) (simp add: sorted_SortFiles)
next
  assume "Load L fetch rcv' = (m', True, err)"
  then show "sorted (map Filename (FileList m'))"
    using Load_found [of L fetch rcv' m' err] by (auto simp: sorted_SortFiles)
qed

text \<open>
  Claim C8, as amended. \<open>Generate\<close> neither renames nor drops a file: the names of the
  generated files are pairwise distinct exactly when the name of the control manifest,
  the names under which the bundled templates are rendered and the names of the
  collaborators' files are pairwise distinct.
\<close>

theorem Generate_filenames_distinct_iff:
  assumes "Generate L deps rcv = Returns (m, None)"
  shows "distinct (map Filename (FileList m)) =
         distinct (kubeSysConfigPath #
                   map (rendered_name \<circ> Filename) (template_files deps) @
                   map Filename (collaborator_files deps))"
proof -
  from assms obtain kubeSysConfigData bootkube where
    b: "generateBootKubeManifests L deps = Returns bootkube"
    and fl: "FileList m = SortFiles (control_file kubeSysConfigData # bootkube @
                                     collaborator_files deps)"
    by (rule Generate_success)
  have "map Filename bootkube = map (rendered_name \<circ> Filename) (template_files deps)"
    using generateBootKubeManifests_Returns [OF b] by simp
  then show ?thesis
    by (simp add: fl distinct_names_SortFiles control_file_def del: distinct.simps distinct_append)
qed


lemma example_persist: "persist example_files = example_directory"
  by (simp add: persist_def example_files_def example_directory_def)

lemma example_directory_sorted: "sort_key fst example_directory = example_directory"
  unfolding example_directory_def by code_simp

lemma example_fetch:
  "directory_fetcher example_directory ''manifests/*.yaml'' =
     Inr [\<lparr>Filename = ''manifests/cluster-config.yaml'',
             Data = ''pullSecret=;vsphere=:@vcenter;other=metadata''\<rparr>,
          \<lparr>Filename = ''manifests/etcd-namespace.yaml'', Data = ''kind: Namespace''\<rparr>,
          \<lparr>Filename = ''manifests/pull.yaml'', Data = ''YWJj''\<rparr>]"
  "directory_fetcher example_directory ''manifests/*.yml'' =
     Inr [\<lparr>Filename = ''manifests/cluster-dns-02-config.yml'', Data = ''dns''\<rparr>,
          \<lparr>Filename = ''manifests/cluster-ingress-02-config.yml'', Data = ''ingress''\<rparr>]"
  "directory_fetcher example_directory ''manifests/*.json'' = Inr []"
  unfolding directory_fetcher_def matching_files_def example_directory_sorted
  by (simp_all add: example_directory_def)

lemma example_loaded_sorted:
  "SortFiles
     [\<lparr>Filename = ''manifests/cluster-config.yaml'',
        Data = ''pullSecret=;vsphere=:@vcenter;other=metadata''\<rparr>,
      \<lparr>Filename = ''manifests/etcd-namespace.yaml'', Data = ''kind: Namespace''\<rparr>,
      \<lparr>Filename = ''manifests/pull.yaml'', Data = ''YWJj''\<rparr>,
      \<lparr>Filename = ''manifests/cluster-dns-02-config.yml'', Data = ''dns''\<rparr>,
      \<lparr>Filename = ''manifests/cluster-ingress-02-config.yml'', Data = ''ingress''\<rparr>] =
   example_files"
  by code_simp

lemma example_Load:
  "Load example_libraries (directory_fetcher example_directory) rcv =
     (\<lparr>KubeSysConfig = Some example_object, FileList = example_files\<rparr>, True, None)"
  using example_loaded_sorted
  by (simp add: Load_unfold example_fetch kubeSysConfigPath_eq example_libraries_fields)

theorem FileList_sorted_by_filename_witness:
  "Generate example_libraries example_parents fresh_Manifests =
     Returns (\<lparr>KubeSysConfig = Some example_object, FileList = example_files\<rparr>, None) \<and>
   Load example_libraries (directory_fetcher example_directory) fresh_Manifests =
     (\<lparr>KubeSysConfig = Some example_object, FileList = example_files\<rparr>, True, None) \<and>
   sorted (map Filename example_files)"
  using FileList_sorted_by_filename [where L = example_libraries and deps = example_parents
      and rcv = fresh_Manifests
      and m = "\<lparr>KubeSysConfig = Some example_object, FileList = example_files\<rparr>"
      and fetch = "directory_fetcher example_directory" and rcv' = fresh_Manifests
      and m' = "\<lparr>KubeSysConfig = Some example_object, FileList = example_files\<rparr>"
      and err = None]
    example_Generate [of fresh_Manifests] example_Load [of fresh_Manifests]
  by simp


lemma render_assets_cong:
  "bootkubeFiles deps' = bootkubeFiles deps \<Longrightarrow>
   render_assets L deps' td files as = render_assets L deps td files as"
  by (induction as arbitrary: files) (simp_all split: exec.splits)


lemma colliding_bootkube:
  "generateBootKubeManifests example_libraries colliding_parents =
   generateBootKubeManifests example_libraries example_parents"
proof -
  have "templateData_of colliding_parents = templateData_of example_parents"
    by (simp add: templateData_of_def colliding_parents_def)
  moreover have "bootkubeFiles colliding_parents = bootkubeFiles example_parents"
    by (simp add: colliding_parents_def)
  ultimately show ?thesis
    using render_assets_cong [of colliding_parents example_parents]
    by (simp add: generateBootKubeManifests_def)
qed


lemma example_collaborators:
  "ingress_Files example_parents = [\<lparr>Filename = ''manifests/cluster-ingress-02-config.yml'', Data = ''ingress''\<rparr>]"
  "network_Files example_parents = []" "infra_Files example_parents = []"
  "proxy_Files example_parents = []" "scheduler_Files example_parents = []"
  "imageContentSourcePolicy_Files example_parents = []"
  by (simp_all add: example_parents_def)

lemma colliding_parents_fields:
  "installConfig_Config colliding_parents = example_config"
  "installConfig_heap colliding_parents = example_heap"
  "collaborator_files colliding_parents =
     [\<lparr>Filename = ''manifests/cluster-ingress-02-config.yml'', Data = ''ingress''\<rparr>,
      \<lparr>Filename = ''manifests/cluster-ingress-02-config.yml'', Data = ''dns''\<rparr>]"
  by (simp_all add: colliding_parents_def example_parents_fields example_collaborators collaborator_files_def)

lemma colliding_sorted:
  "SortFiles
     [\<lparr>Filename = ''manifests/cluster-config.yaml'',
        Data = ''pullSecret=;vsphere=:@vcenter;other=metadata''\<rparr>,
      \<lparr>Filename = ''manifests/etcd-namespace.yaml'', Data = ''kind: Namespace''\<rparr>,
      \<lparr>Filename = ''manifests/pull.yaml'', Data = ''YWJj''\<rparr>,
      \<lparr>Filename = ''manifests/cluster-ingress-02-config.yml'', Data = ''ingress''\<rparr>,
      \<lparr>Filename = ''manifests/cluster-ingress-02-config.yml'', Data = ''dns''\<rparr>] =
   colliding_files"
  by code_simp


lemma colliding_Generate:
  "Generate example_libraries colliding_parents rcv =
     Returns (\<lparr>KubeSysConfig = Some example_object, FileList = colliding_files\<rparr>, None)"
  using colliding_sorted
  by (simp add: Generate_unfold colliding_parents_fields example_libraries_fields
      example_redacted example_object_def [symmetric] colliding_bootkube example_bootkube
      control_file_def kubeSysConfigPath_eq)


text \<open>
  Claim C8 as stated fails: when two collaborating assets name a file alike, \<open>Generate\<close>
  succeeds and its file list has the name twice.
\<close>


theorem Generate_filenames_distinct_counterexample:
  "Generate example_libraries colliding_parents fresh_Manifests =
     Returns (\<lparr>KubeSysConfig = Some example_object, FileList = colliding_files\<rparr>, None) \<and>
   \<not> distinct (map Filename colliding_files)"
  using colliding_Generate [of fresh_Manifests] by (simp add: colliding_files_def)


theorem Generate_filenames_distinct_iff_witness:
  "Generate example_libraries example_parents fresh_Manifests =
     Returns (\<lparr>KubeSysConfig = Some example_object, FileList = example_files\<rparr>, None) \<and>
   distinct (map Filename example_files) \<and>
   distinct (kubeSysConfigPath #
             map (rendered_name \<circ> Filename) (template_files example_parents) @
             map Filename (collaborator_files example_parents))"
proof -
  have g: "Generate example_libraries example_parents fresh_Manifests =
     Returns (\<lparr>KubeSysConfig = Some example_object, FileList = example_files\<rparr>, None)"
    by (rule example_Generate)
  have "distinct (map Filename example_files)"
    by (simp add: example_files_def)
  then show ?thesis
    using g Generate_filenames_distinct_iff [OF g] by simp
qed

subsection \<open>The round trip through the manifest directory\<close>

lemma persist_fold_lookup:
  "map_of (fold (\<lambda>f d. AList.update (Filename f) (Data f) d) files acc) k =
     (case filter (\<lambda>f. Filename f = k) files of
        [] \<Rightarrow> map_of acc k
      | f # fs \<Rightarrow> Some (Data (last (f # fs))))"
proof (induction files arbitrary: acc)
  case Nil
  then show ?case by simp
next
  case (Cons g gs)
  show ?case
    by (simp add: Cons.IH update_conv' split: list.splits)
qed

lemma persist_fold_distinct:
  "distinct (map fst acc) \<Longrightarrow>
   distinct (map fst (fold (\<lambda>f d. AList.update (Filename f) (Data f) d) files acc))"
  by (induction files arbitrary: acc) (simp_all add: distinct_update)

lemma persist_fold_names:
  "fst ` set (fold (\<lambda>f d. AList.update (Filename f) (Data f) d) files acc) =
     fst ` set acc \<union> Filename ` set files"
  by (induction files arbitrary: acc) (auto simp: dom_update)

lemma persist_distinct: "distinct (map fst (persist files))"
  by (simp add: persist_def persist_fold_distinct)

lemma persist_names: "fst ` set (persist files) = Filename ` set files"
  by (simp add: persist_def persist_fold_names)

lemma persist_single:
  "filter (\<lambda>f. Filename f = k) files = [g] \<Longrightarrow> (k, Data g) \<in> set (persist files)"
  by (rule map_of_SomeD) (simp add: persist_def persist_fold_lookup)

lemma load_loop_single:
  "distinct (map Filename xs) \<Longrightarrow> f \<in> set xs \<Longrightarrow> Filename f = kubeSysConfigPath \<Longrightarrow>
   yaml_Unmarshal_object L (Data f) c0 = Inr c \<Longrightarrow>
   \<forall>g \<in> set ys. Filename g \<noteq> kubeSysConfigPath \<Longrightarrow>
   load_loop L (xs @ ys) c0 found = Inr (c, True)"
proof (induction xs arbitrary: found)
  case Nil
  then show ?case by simp
next
  case (Cons x xs)
  show ?case
  proof (cases "Filename x = kubeSysConfigPath")
    case True
    have "f = x"
    proof (rule ccontr)
      assume "f \<noteq> x"
      then have "f \<in> set xs" using Cons.prems(2) by simp
      then have "Filename x \<in> set (map Filename xs)"
        using True Cons.prems(3) by (metis image_eqI list.set_map)
      then show False using Cons.prems(1) by simp
    qed
    have "\<forall>g \<in> set (xs @ ys). Filename g \<noteq> kubeSysConfigPath"
      using Cons.prems(1,5) True by (auto simp: image_iff)
    then have "load_loop L (xs @ ys) c True = Inr (c, True)"
      by (rule load_loop_no_control)
    then show ?thesis
      using True Cons.prems(4) \<open>f = x\<close> by simp
  next
    case False
    then have "f \<in> set xs" using Cons.prems(2,3) by auto
    then have "load_loop L (xs @ ys) c0 found = Inr (c, True)"
      using Cons.prems by (intro Cons.IH) simp_all
    then show ?thesis using False by simp
  qed
qed

lemma matching_files_set:
  "set (matching_files d p) =
     {\<lparr>Filename = n, Data = c\<rparr> | n c. (n, c) \<in> set d \<and> filepath_Match p n}"
  by (auto simp: matching_files_def image_iff)

lemma matching_files_distinct:
  "distinct (map fst d) \<Longrightarrow> distinct (map Filename (matching_files d p))"
proof -
  assume "distinct (map fst d)"
  then have "distinct (map fst (sort_key fst d))"
    by (simp add: distinct_names_sort_key)
  then have "distinct (map fst (filter (\<lambda>(name, content). filepath_Match p name) (sort_key fst d)))"
    by (rule distinct_map_filter)
  moreover have "map Filename (matching_files d p) =
      map fst (filter (\<lambda>(name, content). filepath_Match p name) (sort_key fst d))"
    by (simp add: matching_files_def case_prod_beta comp_def)
  ultimately show ?thesis by simp
qed

lemma control_path_matches:
  "filepath_Match ''manifests/*.yaml'' kubeSysConfigPath"
  "\<not> filepath_Match ''manifests/*.yml'' kubeSysConfigPath"
  "\<not> filepath_Match ''manifests/*.json'' kubeSysConfigPath"
  by (simp_all add: kubeSysConfigPath_eq)

lemma fetchable_iff:
  "fetchable files =
     (\<forall>f \<in> set files. filepath_Match ''manifests/*.yaml'' (Filename f) \<or>
                       filepath_Match ''manifests/*.yml'' (Filename f) \<or>
                       filepath_Match ''manifests/*.json'' (Filename f))"
  unfolding fetchable_def manifest_patterns_def manifest_patterns_eq
  by (simp add: list_all_iff)

lemma Load_persisted:
  assumes f: "fetchable files"
    and one: "filter (\<lambda>f. Filename f = kubeSysConfigPath) files = [g]"
    and u: "yaml_Unmarshal_object L (Data g) empty_configurationObject = Inr c"
  shows "\<exists>loaded. Load L (directory_fetcher (persist files)) rcv =
           (\<lparr>KubeSysConfig = Some c, FileList = SortFiles loaded\<rparr>, True, None) \<and>
         Filename ` set loaded = Filename ` set files"
proof -
  let ?d = "persist files"
  let ?ys = "matching_files ?d ''manifests/*.yaml''"
  let ?ms = "matching_files ?d ''manifests/*.yml''"
  let ?js = "matching_files ?d ''manifests/*.json''"
  let ?c = "\<lparr>Filename = kubeSysConfigPath, Data = Data g\<rparr>"
  have "(kubeSysConfigPath, Data g) \<in> set ?d"
    using one by (rule persist_single)
  then have in_ys: "?c \<in> set ?ys"
    by (auto simp: matching_files_set control_path_matches)
  have dist: "distinct (map Filename ?ys)"
    by (rule matching_files_distinct) (rule persist_distinct)
  have rest: "\<forall>x \<in> set (?ms @ ?js). Filename x \<noteq> kubeSysConfigPath"
    using control_path_matches by (auto simp: matching_files_set)
  have loop: "load_loop L (?ys @ ?ms @ ?js) empty_configurationObject False = Inr (c, True)"
    using dist in_ys _ _ rest by (rule load_loop_single) (simp_all add: u)
  have ne: "?ys @ ?ms @ ?js \<noteq> []"
    using in_ys by auto
  have "Filename ` set (?ys @ ?ms @ ?js) =
          {n \<in> fst ` set ?d. filepath_Match ''manifests/*.yaml'' n \<or>
                             filepath_Match ''manifests/*.yml'' n \<or>
                             filepath_Match ''manifests/*.json'' n}"
    by (auto simp: matching_files_set image_iff) force+
  also have "\<dots> = Filename ` set files"
    using f by (auto simp: persist_names fetchable_iff)
  finally have names: "Filename ` set (?ys @ ?ms @ ?js) = Filename ` set files" .
  show ?thesis
    using loop ne names
    by (intro exI [of _ "?ys @ ?ms @ ?js"]) (simp add: Load_unfold directory_fetcher_def)
qed

text \<open>
  Claim C2, as amended. When \<open>Generate\<close> succeeds, every generated file's name matches
  one of the three patterns of \<open>Load\<close>, the control manifest alone is named
  \<open>manifests/cluster-config.yaml\<close>, and the YAML decoder reads the control manifest back
  as it was encoded, then \<open>Load\<close> on a fresh \<open>Manifests\<close> over the persisted files reports
  them as found, with no error, with the same control-manifest object and with the
  same set of filenames.
\<close>

theorem Generate_persist_Load_round_trip:
  assumes "Generate L deps rcv = Returns (m, None)"
    and "fetchable (FileList m)"
    and "single_control_file (FileList m)"
    and "yaml_round_trip L (KubeSysConfig m)"
  shows "\<exists>m'. Load L (directory_fetcher (persist (FileList m))) fresh_Manifests =
                (m', True, None) \<and>
              KubeSysConfig m' = KubeSysConfig m \<and>
              set (map Filename (FileList m')) = set (map Filename (FileList m))"
proof -
  from assms(1) obtain redactedConfig d bootkube where
    enc: "yaml_Marshal_object L (configMap ''kube-system'' ''cluster-config-v1''
            [''install-config'' \<mapsto> redactedConfig]) = Inr d"
    and k: "KubeSysConfig m = Some (configMap ''kube-system'' ''cluster-config-v1''
            [''install-config'' \<mapsto> redactedConfig])"
    and fl: "FileList m = SortFiles (control_file d # bootkube @ collaborator_files deps)"
    by (rule Generate_success)
  let ?c = "configMap ''kube-system'' ''cluster-config-v1'' [''install-config'' \<mapsto> redactedConfig]"
  let ?K = "filter (\<lambda>f. Filename f = kubeSysConfigPath) (FileList m)"
  have "control_file d \<in> set ?K"
    by (simp add: fl set_SortFiles control_file_def)
  moreover from assms(3) obtain x where "?K = [x]"
    by (auto simp: single_control_file_def length_Suc_conv)
  ultimately have one: "?K = [control_file d]" by simp
  have dec: "yaml_Unmarshal_object L (Data (control_file d)) empty_configurationObject = Inr ?c"
    using assms(4) enc by (simp add: yaml_round_trip_def k control_file_def)
  from Load_persisted [OF assms(2) one dec, of fresh_Manifests]
  obtain loaded where
    l: "Load L (directory_fetcher (persist (FileList m))) fresh_Manifests =
          (\<lparr>KubeSysConfig = Some ?c, FileList = SortFiles loaded\<rparr>, True, None)"
    and n: "Filename ` set loaded = Filename ` set (FileList m)"
    by blast
  show ?thesis
    using l n k by (simp add: set_SortFiles)
qed

lemma example_fetchable: "fetchable example_files"
  by (simp add: fetchable_iff example_files_def)

lemma example_single_control_file: "single_control_file example_files"
  by (simp add: single_control_file_def example_files_def kubeSysConfigPath_eq)

lemma example_round_trip: "yaml_round_trip example_libraries (Some example_object)"
  by (simp add: yaml_round_trip_def example_libraries_fields)

theorem Generate_persist_Load_round_trip_witness:
  "Generate example_libraries example_parents fresh_Manifests =
     Returns (\<lparr>KubeSysConfig = Some example_object, FileList = example_files\<rparr>, None) \<and>
   fetchable example_files \<and> single_control_file example_files \<and>
   yaml_round_trip example_libraries (Some example_object) \<and>
   Load example_libraries (directory_fetcher (persist example_files)) fresh_Manifests =
     (\<lparr>KubeSysConfig = Some example_object, FileList = example_files\<rparr>, True, None)"
proof -
  let ?m = "\<lparr>KubeSysConfig = Some example_object, FileList = example_files\<rparr>"
  have g: "Generate example_libraries example_parents fresh_Manifests = Returns (?m, None)"
    by (rule example_Generate)
  have "\<exists>m'. Load example_libraries (directory_fetcher (persist (FileList ?m))) fresh_Manifests =
                (m', True, None) \<and>
              KubeSysConfig m' = KubeSysConfig ?m \<and>
              set (map Filename (FileList m')) = set (map Filename (FileList ?m))"
    using g by (rule Generate_persist_Load_round_trip)
      (simp_all add: example_fetchable example_single_control_file example_round_trip)
  then show ?thesis
    using g example_fetchable example_single_control_file example_round_trip
      example_Load [of fresh_Manifests]
    by (simp add: example_persist)
qed


lemma example_dns_Files:
  "dns_Files example_parents =
     [\<lparr>Filename = ''manifests/cluster-dns-02-config.yml'', Data = ''dns''\<rparr>]"
  by (simp add: example_parents_def)

lemma unfetched_parents_fields:
  "installConfig_Config unfetched_parents = example_config"
  "installConfig_heap unfetched_parents = example_heap"
  "collaborator_files unfetched_parents =
     [\<lparr>Filename = ''manifests/cluster-ingress-02-config.yml'', Data = ''ingress''\<rparr>,
      \<lparr>Filename = ''manifests/cluster-dns-02-config.yml'', Data = ''dns''\<rparr>,
      \<lparr>Filename = ''manifests/cluster-proxy-01-config.YAML'', Data = ''proxy''\<rparr>]"
  by (simp_all add: unfetched_parents_def example_parents_fields example_collaborators
      example_dns_Files collaborator_files_def)

lemma unfetched_bootkube:
  "generateBootKubeManifests example_libraries unfetched_parents =
   generateBootKubeManifests example_libraries example_parents"
proof -
  have "templateData_of unfetched_parents = templateData_of example_parents"
    by (simp add: templateData_of_def unfetched_parents_def)
  moreover have "bootkubeFiles unfetched_parents = bootkubeFiles example_parents"
    by (simp add: unfetched_parents_def)
  ultimately show ?thesis
    using render_assets_cong [of unfetched_parents example_parents]
    by (simp add: generateBootKubeManifests_def)
qed

lemma unfetched_sorted:
  "SortFiles
     [\<lparr>Filename = ''manifests/cluster-config.yaml'',
        Data = ''pullSecret=;vsphere=:@vcenter;other=metadata''\<rparr>,
      \<lparr>Filename = ''manifests/etcd-namespace.yaml'', Data = ''kind: Namespace''\<rparr>,
      \<lparr>Filename = ''manifests/pull.yaml'', Data = ''YWJj''\<rparr>,
      \<lparr>Filename = ''manifests/cluster-ingress-02-config.yml'', Data = ''ingress''\<rparr>,
      \<lparr>Filename = ''manifests/cluster-dns-02-config.yml'', Data = ''dns''\<rparr>,
      \<lparr>Filename = ''manifests/cluster-proxy-01-config.YAML'', Data = ''proxy''\<rparr>] =
   unfetched_files"
  by code_simp

lemma unfetched_Generate:
  "Generate example_libraries unfetched_parents rcv =
     Returns (\<lparr>KubeSysConfig = Some example_object, FileList = unfetched_files\<rparr>, None)"
  using unfetched_sorted
  by (simp add: Generate_unfold unfetched_parents_fields example_libraries_fields
      example_redacted example_object_def [symmetric] unfetched_bootkube example_bootkube
      control_file_def kubeSysConfigPath_eq)

lemma unfetched_persist: "persist unfetched_files = unfetched_directory"
  by (simp add: persist_def unfetched_files_def unfetched_directory_def)

lemma unfetched_directory_sorted: "sort_key fst unfetched_directory = unfetched_directory"
  unfolding unfetched_directory_def by code_simp

lemma unfetched_fetch:
  "directory_fetcher unfetched_directory ''manifests/*.yaml'' =
     Inr [\<lparr>Filename = ''manifests/cluster-config.yaml'',
             Data = ''pullSecret=;vsphere=:@vcenter;other=metadata''\<rparr>,
          \<lparr>Filename = ''manifests/etcd-namespace.yaml'', Data = ''kind: Namespace''\<rparr>,
          \<lparr>Filename = ''manifests/pull.yaml'', Data = ''YWJj''\<rparr>]"
  "directory_fetcher unfetched_directory ''manifests/*.yml'' =
     Inr [\<lparr>Filename = ''manifests/cluster-dns-02-config.yml'', Data = ''dns''\<rparr>,
          \<lparr>Filename = ''manifests/cluster-ingress-02-config.yml'', Data = ''ingress''\<rparr>]"
  "directory_fetcher unfetched_directory ''manifests/*.json'' = Inr []"
  unfolding directory_fetcher_def matching_files_def unfetched_directory_sorted
  by (simp_all add: unfetched_directory_def)

lemma unfetched_Load:
  "Load example_libraries (directory_fetcher unfetched_directory) rcv =
     (\<lparr>KubeSysConfig = Some example_object, FileList = example_files\<rparr>, True, None)"
  using example_loaded_sorted
  by (simp add: Load_unfold unfetched_fetch kubeSysConfigPath_eq example_libraries_fields)

text \<open>
  Claim C2 as stated fails: a collaborator's file whose name matches none of the three
  case-sensitive patterns is generated and persisted, and \<open>Load\<close> does not fetch it.
\<close>

theorem Generate_persist_Load_counterexample:
  "Generate example_libraries unfetched_parents fresh_Manifests =
     Returns (\<lparr>KubeSysConfig = Some example_object, FileList = unfetched_files\<rparr>, None) \<and>
   Load example_libraries (directory_fetcher (persist unfetched_files)) fresh_Manifests =
     (\<lparr>KubeSysConfig = Some example_object, FileList = example_files\<rparr>, True, None) \<and>
   ''manifests/cluster-proxy-01-config.YAML'' \<in> set (map Filename unfetched_files) \<and>
   ''manifests/cluster-proxy-01-config.YAML'' \<notin> set (map Filename example_files) \<and>
   set (map Filename example_files) \<noteq> set (map Filename unfetched_files)"
proof -
  have a: "''manifests/cluster-proxy-01-config.YAML'' \<in> set (map Filename unfetched_files)"
    by (simp add: unfetched_files_def)
  have b: "''manifests/cluster-proxy-01-config.YAML'' \<notin> set (map Filename example_files)"
    by (simp add: example_files_def)
  from a b have "set (map Filename example_files) \<noteq> set (map Filename unfetched_files)"
    by blast
  with a b show ?thesis
    using unfetched_Generate [of fresh_Manifests] unfetched_Load [of fresh_Manifests]
    by (simp only: unfetched_persist simp_thms)
qed

end
